theory Spec2Isabelle
  imports Main "HOL-Library.Sublist"
begin

text \<open>
  The Packet device resource of the Terraform provider: Create, Read, Update and Delete of
  a device, the refresh function and the wait for a device attribute, embedded as functions
  on the locally tracked resource data and the state of the remote.
\<close>

section \<open>Errors and strings\<close>

text \<open>
  A Go \<open>error\<close> is a value with an \<open>Error()\<close> text. The remote client's errors and
  the ones built by \<open>fmt.Errorf\<close> are \<open>ErrorString\<close>; the other two constructors are the
  errors of the wait primitive: its timeout error, distinct from every other error, and
  its error for an unexpected value, which carries that value. The spec fixes no text for
  these two; the texts below only serve \<open>fmt.Errorf\<close>.
\<close>

datatype error = ErrorString string | TimeoutError | UnexpectedStateError string

fun Error_text :: "error \<Rightarrow> string" where
  "Error_text (ErrorString s) = s"
| "Error_text TimeoutError = ''timeout while waiting for state''"
| "Error_text (UnexpectedStateError v) = ''unexpected state '' @ v"

text \<open>\<open>strings.Contains(s, substr)\<close>\<close>

definition Contains :: "string \<Rightarrow> string \<Rightarrow> bool" where
  "Contains s substr = sublist substr s"

text \<open>\<open>strings.Contains(err.Error(), "404 Not Found")\<close>, the test of lines 145 and 225.\<close>

definition is_404 :: "error \<Rightarrow> bool" where
  "is_404 err = Contains (Error_text err) ''404 Not Found''"

section \<open>The remote client\<close>

text \<open>
  Modelled from the spec: the types of the client library \<open>packngo\<close> are not among the
  source files. Section 3 gives a network address its family (4 or 6), its address string
  and its public/private flag, and a device its ID, hostname, lifecycle state, locked flag
  and addresses, with the image, plan and facility identifiers this code reads as
  \<open>dev.OS.Slug\<close>, \<open>dev.Plan.Slug\<close> and \<open>dev.Facility.Code\<close> (kept flat here: the client
  returns devices whose \<open>OS\<close>, \<open>Plan\<close> and \<open>Facility\<close> are present). The create request
  has the fields of lines 93 to 113.
\<close>

record IpAddress =
  Family :: int
  Address :: string
  Public :: bool

record Device =
  ID :: string
  Hostname :: string
  State :: string
  Locked :: bool
  Network :: "IpAddress list"
  OS_Slug :: string
  Plan_Slug :: string
  Facility_Code :: string

record DeviceCreateRequest =
  HostName :: string
  Plan :: string
  Facility :: string
  OS :: string
  BillingCycle :: string
  ProjectID :: string
  UserData :: string
  Tags :: "string list"

text \<open>
  Modelled from the spec: the Remote Resource Client is an external collaborator, with the
  operations of section 6: \<open>Create\<close> and \<open>Get\<close> return a device or an error, \<open>Delete\<close>,
  \<open>Lock\<close>, \<open>Unlock\<close> and \<open>PowerOn\<close> an error or none. The remote system is a state of
  any type \<open>'w\<close>; each method of \<open>client.Devices\<close> answers from the current state and
  moves it on, so that two successive \<open>Get\<close>s may see two different devices.
\<close>

record 'w Client =
  Devices_Create :: "DeviceCreateRequest \<Rightarrow> 'w \<Rightarrow> (error + Device) \<times> 'w"
  Devices_Get :: "string \<Rightarrow> 'w \<Rightarrow> (error + Device) \<times> 'w"
  Devices_Delete :: "string \<Rightarrow> 'w \<Rightarrow> error option \<times> 'w"
  Devices_Lock :: "string \<Rightarrow> 'w \<Rightarrow> error option \<times> 'w"
  Devices_Unlock :: "string \<Rightarrow> 'w \<Rightarrow> error option \<times> 'w"
  Devices_PowerOn :: "string \<Rightarrow> 'w \<Rightarrow> error option \<times> 'w"

text \<open>The calls made so far are logged beside the remote state, in order.\<close>

datatype call =
  CallCreate DeviceCreateRequest
| CallGet string
| CallDelete string
| CallLock string
| CallUnlock string
| CallPowerOn string

record 'w Remote =
  world :: 'w
  calls :: "call list"

definition do_Create :: "'w Client \<Rightarrow> DeviceCreateRequest \<Rightarrow> 'w Remote \<Rightarrow> (error + Device) \<times> 'w Remote" where
  "do_Create client opts r =
     (case Devices_Create client opts (world r) of
        (res, w) \<Rightarrow> (res, \<lparr>world = w, calls = calls r @ [CallCreate opts]\<rparr>))"

definition do_Get :: "'w Client \<Rightarrow> string \<Rightarrow> 'w Remote \<Rightarrow> (error + Device) \<times> 'w Remote" where
  "do_Get client i r =
     (case Devices_Get client i (world r) of
        (res, w) \<Rightarrow> (res, \<lparr>world = w, calls = calls r @ [CallGet i]\<rparr>))"

definition do_Delete :: "'w Client \<Rightarrow> string \<Rightarrow> 'w Remote \<Rightarrow> error option \<times> 'w Remote" where
  "do_Delete client i r =
     (case Devices_Delete client i (world r) of
        (res, w) \<Rightarrow> (res, \<lparr>world = w, calls = calls r @ [CallDelete i]\<rparr>))"

definition do_Lock :: "'w Client \<Rightarrow> string \<Rightarrow> 'w Remote \<Rightarrow> error option \<times> 'w Remote" where
  "do_Lock client i r =
     (case Devices_Lock client i (world r) of
        (res, w) \<Rightarrow> (res, \<lparr>world = w, calls = calls r @ [CallLock i]\<rparr>))"

definition do_Unlock :: "'w Client \<Rightarrow> string \<Rightarrow> 'w Remote \<Rightarrow> error option \<times> 'w Remote" where
  "do_Unlock client i r =
     (case Devices_Unlock client i (world r) of
        (res, w) \<Rightarrow> (res, \<lparr>world = w, calls = calls r @ [CallUnlock i]\<rparr>))"

definition do_PowerOn :: "'w Client \<Rightarrow> string \<Rightarrow> 'w Remote \<Rightarrow> error option \<times> 'w Remote" where
  "do_PowerOn client i r =
     (case Devices_PowerOn client i (world r) of
        (res, w) \<Rightarrow> (res, \<lparr>world = w, calls = calls r @ [CallPowerOn i]\<rparr>))"

section \<open>The locally tracked resource\<close>

text \<open>
  Modelled from the spec: \<open>schema.ResourceData\<close> belongs to the schema layer, an external
  collaborator that is not among the source files. It is the locally tracked resource of
  the spec: the identity that Create persists and Read clears, the declared and computed
  attributes, whether the locked flag changed, and the connection info. What this code
  uses of it: the ID (\<open>Id\<close>, \<open>SetId\<close>), the attributes by name with
  the value of the prior state (\<open>prior\<close>), the value planned by the configuration and diff
  (\<open>planned\<close>) and the value written by \<open>Set\<close> during the operation (\<open>written\<close>), and the
  connection info. \<open>Get\<close> reads the topmost level that has the key and gives the zero
  value of the attribute's schema type otherwise; \<open>GetOk\<close> is ok when the key is present
  with a value other than that zero value (an attribute that is not yet populated has no
  determinable value); \<open>HasChange\<close> compares the prior with the planned value. The ID
  field is \<open>Id'\<close>, since \<open>Id\<close> is the identity relation of HOL.
\<close>

datatype val = VString string | VBool bool | VList "string list"

record ResourceData =
  Id' :: string
  prior :: "string \<rightharpoonup> val"
  planned :: "string \<rightharpoonup> val"
  written :: "string \<rightharpoonup> val"
  ConnInfo :: "string \<rightharpoonup> string"

text \<open>The zero value of the type the schema of lines 21 to 85 gives each attribute.\<close>

definition zero_val :: "string \<Rightarrow> val" where
  "zero_val key =
     (if key = ''locked'' then VBool False
      else if key = ''tags'' then VList []
      else VString [])"

definition lookup :: "ResourceData \<Rightarrow> string \<Rightarrow> val option" where
  "lookup d key =
     (case written d key of Some v \<Rightarrow> Some v
      | None \<Rightarrow> (case planned d key of Some v \<Rightarrow> Some v | None \<Rightarrow> prior d key))"

definition Get :: "ResourceData \<Rightarrow> string \<Rightarrow> val" where
  "Get d key = (case lookup d key of Some v \<Rightarrow> v | None \<Rightarrow> zero_val key)"

definition GetOk :: "ResourceData \<Rightarrow> string \<Rightarrow> val \<times> bool" where
  "GetOk d key =
     (case lookup d key of
        Some v \<Rightarrow> (v, v \<noteq> zero_val key)
      | None \<Rightarrow> (zero_val key, False))"

definition HasChange :: "ResourceData \<Rightarrow> string \<Rightarrow> bool" where
  "HasChange d key =
     ((case prior d key of Some v \<Rightarrow> v | None \<Rightarrow> zero_val key) \<noteq>
      (case planned d key of Some v \<Rightarrow> v
       | None \<Rightarrow> (case prior d key of Some v \<Rightarrow> v | None \<Rightarrow> zero_val key)))"

definition Set_attr :: "ResourceData \<Rightarrow> string \<Rightarrow> val \<Rightarrow> ResourceData" where
  "Set_attr d key v = d\<lparr>written := (written d)(key \<mapsto> v)\<rparr>"

definition SetId :: "ResourceData \<Rightarrow> string \<Rightarrow> ResourceData" where
  "SetId d i = d\<lparr>Id' := i\<rparr>"

definition SetConnInfo :: "ResourceData \<Rightarrow> (string \<rightharpoonup> string) \<Rightarrow> ResourceData" where
  "SetConnInfo d m = d\<lparr>ConnInfo := m\<rparr>"

text \<open>The type assertions \<open>.(string)\<close>, \<open>.(bool)\<close> on a value of the asserted type.\<close>

fun as_string :: "val \<Rightarrow> string" where
  "as_string (VString s) = s"
| "as_string _ = []"

fun as_bool :: "val \<Rightarrow> bool" where
  "as_bool (VBool b) = b"
| "as_bool _ = False"

fun as_list :: "val \<Rightarrow> string list" where
  "as_list (VList xs) = xs"
| "as_list _ = []"

section \<open>Read\<close>

text \<open>
  The loop of lines 160 to 175 over \<open>dev.Network\<close>, on the pair of the local variable
  \<open>publicIPv4\<close> and the resource data.
\<close>

fun scan_network :: "IpAddress list \<Rightarrow> string \<times> ResourceData \<Rightarrow> string \<times> ResourceData" where
  "scan_network [] (publicIPv4, d) = (publicIPv4, d)"
| "scan_network (addr # rest) (publicIPv4, d) =
     scan_network rest
       (if Family addr = 4 then
          (if Public addr
           then (Address addr, Set_attr d ''ipv4_address'' (VString (Address addr)))
           else (publicIPv4, Set_attr d ''ipv4_address_private'' (VString (Address addr))))
        else if Family addr = 6 then
          (if Public addr
           then (publicIPv4, Set_attr d ''ipv6_address'' (VString (Address addr)))
           else (publicIPv4, d))
        else (publicIPv4, d))"

text \<open>Lines 153 to 181: the fields of a fetched device written into the resource data.\<close>

definition populate :: "Device \<Rightarrow> ResourceData \<Rightarrow> ResourceData" where
  "populate dev d0 =
     (let d1 = Set_attr d0 ''os'' (VString (OS_Slug dev));
          d2 = Set_attr d1 ''hostname'' (VString (Hostname dev));
          d3 = Set_attr d2 ''facility'' (VString (Facility_Code dev));
          d4 = Set_attr d3 ''plan'' (VString (Plan_Slug dev));
          d5 = Set_attr d4 ''state'' (VString (State dev));
          d6 = Set_attr d5 ''locked'' (VBool (Locked dev))
      in case scan_network (Network dev) ([], d6) of
           (publicIPv4, d7) \<Rightarrow>
             SetConnInfo d7 [''type'' \<mapsto> ''ssh'', ''host'' \<mapsto> publicIPv4])"

definition resourcePacketDeviceRead ::
  "'w Client \<Rightarrow> ResourceData \<times> 'w Remote \<Rightarrow> error option \<times> ResourceData \<times> 'w Remote" where
  "resourcePacketDeviceRead client = (\<lambda>(d, r).
     case do_Get client (Id' d) r of
       (Inl err, r1) \<Rightarrow>
         if is_404 err then (None, SetId d [], r1)
         else (Some (ErrorString (''Error retrieving device: '' @ Error_text err)), d, r1)
     | (Inr dev, r1) \<Rightarrow> (None, populate dev d, r1))"

section \<open>Update\<close>

definition resourcePacketDeviceUpdate ::
  "'w Client \<Rightarrow> ResourceData \<times> 'w Remote \<Rightarrow> error option \<times> ResourceData \<times> 'w Remote" where
  "resourcePacketDeviceUpdate client = (\<lambda>(d, r).
     if HasChange d ''locked'' then
       (case (if as_bool (Get d ''locked'')
              then (''locking'', do_Lock client (Id' d) r)
              else (''unlocking'', do_Unlock client (Id' d) r)) of
          (action, Some err, r1) \<Rightarrow>
            (Some (ErrorString (''Error '' @ action @ '' device ('' @ Id' d @ ''): '' @ Error_text err)),
             d, r1)
        | (action, None, r1) \<Rightarrow> resourcePacketDeviceRead client (d, r1))
     else resourcePacketDeviceRead client (d, r))"

section \<open>The wait primitive\<close>

text \<open>
  Modelled from the spec: \<open>resource.StateChangeConf\<close>, the Poll Request of section 3, is
  declared by the helper library and is not among the source files. It holds the target
  value, the pending values and the three durations; the refresh function is passed beside
  it. Durations are whole nanoseconds, as in \<open>time.Duration\<close>.
\<close>

record StateChangeConf =
  Pending :: "string list"
  Target :: string
  Timeout :: nat
  Delay :: nat
  MinTimeout :: nat

type_synonym 's StateRefreshFunc = "'s \<Rightarrow> (Device option \<times> string \<times> error option) \<times> 's"

text \<open>
  Modelled from the spec: \<open>WaitForState\<close> (the Attribute Poller of section 4.1) is called
  at line 252 and is not among the source files. Following the six steps of its contract:
  on each tick \<open>refresh\<close> is invoked; an error aborts with that error; no observed value
  (the refresh returns no snapshot, as line 284 does) continues; the target value is
  success with the snapshot; a pending value continues; any other value aborts with an
  error naming it. The first poll comes after \<open>Delay\<close>; before each later poll the wait is
  the adaptive proposal \<open>backoff n\<close> for that round, raised to \<open>MinTimeout\<close> when it is
  below it; a poll that would start when the \<open>Timeout\<close> budget is used up is the timeout
  error instead. The clock advances by the waits only. The times at which \<open>refresh\<close> was
  invoked are returned beside the result, in order. A wait that never returns is \<open>None\<close>.
\<close>

partial_function (option) poll ::
  "(nat \<Rightarrow> nat) \<Rightarrow> StateChangeConf \<Rightarrow> 's StateRefreshFunc \<Rightarrow> nat \<Rightarrow> nat list \<Rightarrow> 's
     \<Rightarrow> ((Device option \<times> error option) \<times> 's \<times> nat list) option" where
  "poll backoff conf refresh elapsed polled s =
     (if Timeout conf \<le> elapsed then Some ((None, Some TimeoutError), s, polled)
      else
        (case refresh s of
           ((result, currentState, Some err), s1) \<Rightarrow>
             Some ((None, Some err), s1, polled @ [elapsed])
         | ((None, currentState, None), s1) \<Rightarrow>
             poll backoff conf refresh
               (elapsed + max (MinTimeout conf) (backoff (length polled))) (polled @ [elapsed]) s1
         | ((Some snapshot, currentState, None), s1) \<Rightarrow>
             if currentState = Target conf
             then Some ((Some snapshot, None), s1, polled @ [elapsed])
             else if currentState \<in> set (Pending conf)
             then poll backoff conf refresh
                    (elapsed + max (MinTimeout conf) (backoff (length polled)))
                    (polled @ [elapsed]) s1
             else Some ((None, Some (UnexpectedStateError currentState)), s1,
                        polled @ [elapsed])))"

text \<open>
  Modelled from the spec: \<open>WaitForState\<close> starts the polling when the initial delay has
  passed, with no poll made yet.
\<close>

definition WaitForState ::
  "(nat \<Rightarrow> nat) \<Rightarrow> StateChangeConf \<Rightarrow> 's StateRefreshFunc \<Rightarrow> 's
     \<Rightarrow> ((Device option \<times> error option) \<times> 's \<times> nat list) option" where
  "WaitForState backoff conf refresh s = poll backoff conf refresh (Delay conf) [] s"

section \<open>Waiting for a device attribute\<close>

text \<open>\<open>time.Second\<close> and \<open>time.Minute\<close>, in nanoseconds.\<close>

definition Second :: nat where
  "Second = 1000000000"

definition Minute :: nat where
  "Minute = 60 * Second"

text \<open>
  The closure of lines 259 to 285, on the resource data and the remote it captures. Every
  caller passes the string attribute \<open>state\<close>; the assertion \<open>attr.(string)\<close> is
  \<open>as_string\<close>.
\<close>

definition newDeviceStateRefreshFunc ::
  "'w Client \<Rightarrow> string \<Rightarrow> (ResourceData \<times> 'w Remote) StateRefreshFunc" where
  "newDeviceStateRefreshFunc client attribute = (\<lambda>(d, r).
     case resourcePacketDeviceRead client (d, r) of
       (Some err, d1, r1) \<Rightarrow> ((None, [], Some err), d1, r1)
     | (None, d1, r1) \<Rightarrow>
         (case GetOk d1 attribute of
            (attr, True) \<Rightarrow>
              (case do_Get client (Id' d1) r1 of
                 (Inl err, r2) \<Rightarrow>
                   ((None, [],
                     Some (ErrorString (''Error retrieving device: '' @ Error_text err))),
                    d1, r2)
               | (Inr dev, r2) \<Rightarrow> ((Some dev, as_string attr, None), d1, r2))
          | (attr, False) \<Rightarrow> ((None, [], None), d1, r1)))"

text \<open>
  Lines 243 to 252: the configuration of every device wait, and the wait itself. The
  adaptive proposal \<open>backoff\<close> of the wait primitive is passed along by every function
  that waits.
\<close>

definition deviceStateConf :: "string \<Rightarrow> string list \<Rightarrow> StateChangeConf" where
  "deviceStateConf target pending =
     \<lparr>Pending = pending, Target = target,
      Timeout = 60 * Minute, Delay = 10 * Second, MinTimeout = 3 * Second\<rparr>"

definition WaitForDeviceAttribute ::
  "(nat \<Rightarrow> nat) \<Rightarrow> 'w Client \<Rightarrow> ResourceData \<Rightarrow> string \<Rightarrow> string list \<Rightarrow> string \<Rightarrow> 'w Remote
     \<Rightarrow> ((Device option \<times> error option) \<times> (ResourceData \<times> 'w Remote) \<times> nat list) option" where
  "WaitForDeviceAttribute backoff client d target pending attribute r =
     WaitForState backoff (deviceStateConf target pending)
       (newDeviceStateRefreshFunc client attribute) (d, r)"

section \<open>Create and Delete\<close>

text \<open>
  Lines 93 to 114. The tags are read through \<open>tags.#\<close> and \<open>tags.0\<close>, \<open>tags.1\<close>, ...: the
  list attribute \<open>tags\<close> in order.
\<close>

definition create_opts :: "ResourceData \<Rightarrow> DeviceCreateRequest" where
  "create_opts d =
     \<lparr>HostName = as_string (Get d ''hostname''),
      Plan = as_string (Get d ''plan''),
      Facility = as_string (Get d ''facility''),
      OS = as_string (Get d ''os''),
      BillingCycle = ''hourly'',
      ProjectID = as_string (Get d ''project_id''),
      UserData = (case GetOk d ''user_data'' of (attr, True) \<Rightarrow> as_string attr | (attr, False) \<Rightarrow> []),
      Tags = (let tags = as_list (Get d ''tags'') in if 0 < length tags then tags else [])\<rparr>"

text \<open>Lines 118 to 134, and lines 211 to 234. An operation that never returns is \<open>None\<close>.\<close>

definition resourcePacketDeviceCreate ::
  "(nat \<Rightarrow> nat) \<Rightarrow> 'w Client \<Rightarrow> ResourceData \<times> 'w Remote
     \<Rightarrow> (error option \<times> ResourceData \<times> 'w Remote) option" where
  "resourcePacketDeviceCreate backoff client = (\<lambda>(d, r).
     case do_Create client (create_opts d) r of
       (Inl err, r1) \<Rightarrow>
         Some (Some (ErrorString (''Error creating device: '' @ Error_text err)), d, r1)
     | (Inr dev, r1) \<Rightarrow>
         (case WaitForDeviceAttribute backoff client (SetId d (ID dev))
                 ''active'' [''queued'', ''provisioning''] ''state'' r1 of
            None \<Rightarrow> None
          | Some ((res, Some err), (d2, r2), ts) \<Rightarrow>
              Some (Some (ErrorString (''Error waiting for device ('' @ Id' d2 @
                            '') to become ready: '' @ Error_text err)), d2, r2)
          | Some ((res, None), (d2, r2), ts) \<Rightarrow> Some (resourcePacketDeviceRead client (d2, r2))))"

definition resourcePacketDeviceDelete ::
  "(nat \<Rightarrow> nat) \<Rightarrow> 'w Client \<Rightarrow> ResourceData \<times> 'w Remote
     \<Rightarrow> (error option \<times> ResourceData \<times> 'w Remote) option" where
  "resourcePacketDeviceDelete backoff client = (\<lambda>(d, r).
     case WaitForDeviceAttribute backoff client d
            ''active'' [''queued'', ''provisioning''] ''state'' r of
       None \<Rightarrow> None
     | Some ((res, Some err), (d1, r1), ts) \<Rightarrow>
         Some (Some (ErrorString (''Error waiting for device to be active for destroy ('' @
                       Id' d1 @ ''): '' @ Error_text err)), d1, r1)
     | Some ((res, None), (d1, r1), ts) \<Rightarrow>
         (case do_Delete client (Id' d1) r1 of
            (Some err, r2) \<Rightarrow>
              if is_404 err then Some (None, d1, r2)
              else Some (Some (ErrorString (''Error deleting device: '' @ Error_text err)), d1, r2)
          | (None, r2) \<Rightarrow> Some (None, d1, r2)))"

text \<open>Lines 289 to 303.\<close>

definition powerOnAndWait ::
  "(nat \<Rightarrow> nat) \<Rightarrow> 'w Client \<Rightarrow> ResourceData \<times> 'w Remote
     \<Rightarrow> (error option \<times> ResourceData \<times> 'w Remote) option" where
  "powerOnAndWait backoff client = (\<lambda>(d, r).
     case do_PowerOn client (Id' d) r of
       (Some err, r1) \<Rightarrow> Some (Some err, d, r1)
     | (None, r1) \<Rightarrow>
         (case WaitForDeviceAttribute backoff client d ''active'' [''off''] ''state'' r1 of
            None \<Rightarrow> None
          | Some ((res, Some err), (d2, r2), ts) \<Rightarrow> Some (Some err, d2, r2)
          | Some ((res, None), (d2, r2), ts) \<Rightarrow> Some (None, d2, r2)))"

section \<open>Notions used to state the properties\<close>

text \<open>The classes of a network address that the scan of Read distinguishes.\<close>

definition public_v4 :: "IpAddress \<Rightarrow> bool" where
  "public_v4 a = (Family a = 4 \<and> Public a)"

definition private_v4 :: "IpAddress \<Rightarrow> bool" where
  "private_v4 a = (Family a = 4 \<and> \<not> Public a)"

definition public_v6 :: "IpAddress \<Rightarrow> bool" where
  "public_v6 a = (Family a = 6 \<and> Public a)"

text \<open>The address of the first, and of the last, entry of a class in the list's order.\<close>

definition first_address :: "(IpAddress \<Rightarrow> bool) \<Rightarrow> IpAddress list \<Rightarrow> string option" where
  "first_address P addrs = map_option Address (find P addrs)"

definition last_address :: "(IpAddress \<Rightarrow> bool) \<Rightarrow> IpAddress list \<Rightarrow> string option" where
  "last_address P addrs = map_option Address (find P (rev addrs))"

text \<open>The resource data a Read leaves behind, and the calls an operation added to the log.\<close>

definition data_after :: "'a \<times> ResourceData \<times> 'w Remote \<Rightarrow> ResourceData" where
  "data_after out = fst (snd out)"

definition remote_after :: "'a \<times> ResourceData \<times> 'w Remote \<Rightarrow> 'w Remote" where
  "remote_after out = snd (snd out)"

definition calls_made :: "'w Remote \<Rightarrow> 'w Remote \<Rightarrow> call list" where
  "calls_made r r' = drop (length (calls r)) (calls r')"

fun is_Lock :: "call \<Rightarrow> bool" where
  "is_Lock (CallLock i) = True"
| "is_Lock c = False"

fun is_Unlock :: "call \<Rightarrow> bool" where
  "is_Unlock (CallUnlock i) = True"
| "is_Unlock c = False"

text \<open>
  What a wait and what a Create or Delete reports: the error of the wait and the times of
  its polls; the error of the operation and the ID the resource is left with.
\<close>

definition wait_error ::
  "((Device option \<times> error option) \<times> 's \<times> nat list) option \<Rightarrow> error option option" where
  "wait_error out = map_option (\<lambda>(res, s, ts). snd res) out"

definition wait_polls ::
  "((Device option \<times> error option) \<times> 's \<times> nat list) option \<Rightarrow> nat list" where
  "wait_polls out = (case out of None \<Rightarrow> [] | Some (res, s, ts) \<Rightarrow> ts)"

definition reported ::
  "(error option \<times> ResourceData \<times> 'w Remote) option \<Rightarrow> (error option \<times> string) option" where
  "reported out = map_option (\<lambda>(res, d, r). (res, Id' d)) out"

text \<open>Successive poll times at least \<open>m\<close> apart.\<close>

fun spaced :: "nat \<Rightarrow> nat list \<Rightarrow> bool" where
  "spaced m [] = True"
| "spaced m [t] = True"
| "spaced m (t # u # ts) = (t + m \<le> u \<and> spaced m (u # ts))"

text \<open>
  The timing of the polls made from the clock value \<open>elapsed\<close> on: every poll starts within
  the timeout budget, successive polls are at least \<open>MinTimeout\<close> apart, their number times
  \<open>MinTimeout\<close> stays below the remaining budget plus one interval, and the first of them
  (there is one when the budget is not used up) is made at \<open>elapsed\<close> itself.
\<close>

definition timed :: "StateChangeConf \<Rightarrow> nat \<Rightarrow> nat list \<Rightarrow> bool" where
  "timed conf elapsed new =
     (list_all (\<lambda>t. elapsed \<le> t \<and> t < Timeout conf) new \<and>
      spaced (MinTimeout conf) new \<and>
      length new * MinTimeout conf < (Timeout conf - elapsed) + MinTimeout conf \<and>
      (if elapsed < Timeout conf then new \<noteq> [] \<and> hd new = elapsed else new = []))"

text \<open>
  The schedule of a wait: the time of its poll number \<open>k\<close> (counted from 0) when all
  earlier polls kept it waiting, and the state the refresh function is invoked on at that
  poll.
\<close>

fun poll_time :: "(nat \<Rightarrow> nat) \<Rightarrow> StateChangeConf \<Rightarrow> nat \<Rightarrow> nat" where
  "poll_time backoff conf 0 = Delay conf"
| "poll_time backoff conf (Suc k) =
     poll_time backoff conf k + max (MinTimeout conf) (backoff k)"

fun state_at :: "'s StateRefreshFunc \<Rightarrow> 's \<Rightarrow> nat \<Rightarrow> 's" where
  "state_at refresh s 0 = s"
| "state_at refresh s (Suc k) = snd (refresh (state_at refresh s k))"

text \<open>A refresh result on which the wait goes on: no value yet, or a pending value.\<close>

definition keeps_waiting :: "StateChangeConf \<Rightarrow> Device option \<times> string \<times> error option \<Rightarrow> bool" where
  "keeps_waiting conf out =
     (case out of
        (result, currentState, Some err) \<Rightarrow> False
      | (None, currentState, None) \<Rightarrow> True
      | (Some snapshot, currentState, None) \<Rightarrow>
          currentState \<noteq> Target conf \<and> currentState \<in> set (Pending conf))"

section \<open>Example remotes and resources\<close>

text \<open>
  A remote that counts the \<open>Get\<close> calls it has answered: the first ones are answered from
  the list \<open>gets\<close>, the later ones with \<open>later\<close>; \<open>Create\<close>, \<open>Delete\<close> and
  \<open>Lock\<close>/\<open>Unlock\<close> have fixed answers.
\<close>

definition scripted_client ::
  "(error + Device) \<Rightarrow> (error + Device) list \<Rightarrow> (error + Device) \<Rightarrow> error option \<Rightarrow> error option
     \<Rightarrow> nat Client" where
  "scripted_client created gets later deleted locked =
     \<lparr>Devices_Create = (\<lambda>opts n. (created, n)),
      Devices_Get = (\<lambda>i n. (if n < length gets then gets ! n else later, Suc n)),
      Devices_Delete = (\<lambda>i n. (deleted, n)),
      Devices_Lock = (\<lambda>i n. (locked, n)),
      Devices_Unlock = (\<lambda>i n. (locked, n)),
      Devices_PowerOn = (\<lambda>i n. (None, n))\<rparr>"

definition example_device :: "string \<Rightarrow> IpAddress list \<Rightarrow> Device" where
  "example_device st net =
     \<lparr>ID = ''d1'', Hostname = ''web'', State = st, Locked = False, Network = net,
      OS_Slug = ''ubuntu_14_04'', Plan_Slug = ''baremetal_1'', Facility_Code = ''ewr1''\<rparr>"

definition not_found :: error where
  "not_found = ErrorString ''404 Not Found''"

definition server_error :: error where
  "server_error = ErrorString ''500 Internal Server Error''"

definition fresh_remote :: "nat Remote" where
  "fresh_remote = \<lparr>world = 0, calls = []\<rparr>"

text \<open>A resource tracked as \<open>d1\<close> of which nothing else is known locally.\<close>

definition tracked_data :: ResourceData where
  "tracked_data =
     \<lparr>Id' = ''d1'', prior = Map.empty, planned = Map.empty, written = Map.empty,
      ConnInfo = Map.empty\<rparr>"

text \<open>The same resource with the state \<open>active\<close> of an earlier Read in its prior state.\<close>

definition active_data :: ResourceData where
  "active_data = tracked_data\<lparr>prior := [''state'' \<mapsto> VString ''active'']\<rparr>"

text \<open>The same resource with a change of the locked flag planned, to true and to false.\<close>

definition locking_data :: ResourceData where
  "locking_data =
     tracked_data\<lparr>prior := [''locked'' \<mapsto> VBool False], planned := [''locked'' \<mapsto> VBool True]\<rparr>"

definition unlocking_data :: ResourceData where
  "unlocking_data =
     tracked_data\<lparr>prior := [''locked'' \<mapsto> VBool True], planned := [''locked'' \<mapsto> VBool False]\<rparr>"

text \<open>A resource that is configured and not yet created.\<close>

definition new_data :: ResourceData where
  "new_data =
     \<lparr>Id' = [], prior = Map.empty,
      planned = [''os'' \<mapsto> VString ''ubuntu_14_04'', ''hostname'' \<mapsto> VString ''web'',
                 ''facility'' \<mapsto> VString ''ewr1'', ''plan'' \<mapsto> VString ''baremetal_1'',
                 ''project_id'' \<mapsto> VString ''p1''],
      written = Map.empty, ConnInfo = Map.empty\<rparr>"

text \<open>
  A remote on which the device is queued for the first 2394 \<open>Get\<close> calls and active from
  then on.
\<close>

definition slow_client :: "nat Client" where
  "slow_client =
     scripted_client (Inl not_found) (replicate 2394 (Inr (example_device ''queued'' [])))
       (Inr (example_device ''active'' [])) None None"

text \<open>The adaptive proposal that always leaves the interval at its minimum.\<close>

definition no_backoff :: "nat \<Rightarrow> nat" where
  "no_backoff n = 0"

definition two_public :: "IpAddress list" where
  "two_public =
     [\<lparr>Family = 4, Address = ''147.1.2.3'', Public = True\<rparr>,
      \<lparr>Family = 4, Address = ''147.9.9.9'', Public = True\<rparr>]"

definition mixed_network :: "IpAddress list" where
  "mixed_network =
     [\<lparr>Family = 4, Address = ''10.0.0.5'', Public = False\<rparr>,
      \<lparr>Family = 4, Address = ''147.1.2.3'', Public = True\<rparr>,
      \<lparr>Family = 6, Address = ''2604::1'', Public = True\<rparr>,
      \<lparr>Family = 4, Address = ''10.0.0.7'', Public = False\<rparr>]"

section \<open>Facts about the scan of the network addresses\<close>

lemma find_snoc:
  "find P (xs @ [x]) =
     (case find P xs of Some a \<Rightarrow> Some a | None \<Rightarrow> if P x then Some x else None)"
  by (induction xs) auto

lemma last_address_Nil: "last_address P [] = None"
  by (simp add: last_address_def)

lemma last_address_Cons:
  "last_address P (x # xs) =
     (case last_address P xs of
        Some a \<Rightarrow> Some a
      | None \<Rightarrow> if P x then Some (Address x) else None)"
  by (simp add: last_address_def find_snoc split: option.splits)

lemma scan_network_frame:
  "Id' (snd (scan_network addrs (p, d))) = Id' d \<and>
   prior (snd (scan_network addrs (p, d))) = prior d \<and>
   planned (snd (scan_network addrs (p, d))) = planned d \<and>
   ConnInfo (snd (scan_network addrs (p, d))) = ConnInfo d"
  by (induction addrs arbitrary: p d) (simp_all add: Set_attr_def)

lemma scan_network_host:
  "fst (scan_network addrs (p, d)) =
     (case last_address public_v4 addrs of Some a \<Rightarrow> a | None \<Rightarrow> p)"
  by (induction addrs arbitrary: p d)
     (auto simp: last_address_Nil last_address_Cons public_v4_def split: option.splits)

lemma scan_network_ipv4:
  "written (snd (scan_network addrs (p, d))) ''ipv4_address'' =
     (case last_address public_v4 addrs of
        Some a \<Rightarrow> Some (VString a)
      | None \<Rightarrow> written d ''ipv4_address'')"
  by (induction addrs arbitrary: p d)
     (simp_all add: last_address_Nil last_address_Cons Set_attr_def
        public_v4_def split: option.splits)

lemma scan_network_ipv4_private:
  "written (snd (scan_network addrs (p, d))) ''ipv4_address_private'' =
     (case last_address private_v4 addrs of
        Some a \<Rightarrow> Some (VString a)
      | None \<Rightarrow> written d ''ipv4_address_private'')"
  by (induction addrs arbitrary: p d)
     (simp_all add: last_address_Nil last_address_Cons Set_attr_def
        private_v4_def split: option.splits)

lemma scan_network_ipv6:
  "written (snd (scan_network addrs (p, d))) ''ipv6_address'' =
     (case last_address public_v6 addrs of
        Some a \<Rightarrow> Some (VString a)
      | None \<Rightarrow> written d ''ipv6_address'')"
  by (induction addrs arbitrary: p d)
     (simp_all add: last_address_Nil last_address_Cons Set_attr_def
        public_v6_def split: option.splits)

lemma scan_network_other:
  "key \<noteq> ''ipv4_address'' \<Longrightarrow> key \<noteq> ''ipv4_address_private'' \<Longrightarrow>
   key \<noteq> ''ipv6_address'' \<Longrightarrow>
   written (snd (scan_network addrs (p, d))) key = written d key"
  by (induction addrs arbitrary: p d) (simp_all add: Set_attr_def)

section \<open>Facts about Read\<close>

lemma populate_frame:
  "Id' (populate dev d) = Id' d \<and> prior (populate dev d) = prior d \<and>
   planned (populate dev d) = planned d"
  by (simp add: populate_def Let_def SetConnInfo_def Set_attr_def split_beta scan_network_frame)

lemma populate_ConnInfo:
  "ConnInfo (populate dev d) =
     [''type'' \<mapsto> ''ssh'',
      ''host'' \<mapsto> (case last_address public_v4 (Network dev) of Some a \<Rightarrow> a | None \<Rightarrow> [])]"
  by (simp add: populate_def Let_def SetConnInfo_def split_beta scan_network_host)

lemma populate_written_fields:
  "written (populate dev d) ''os'' = Some (VString (OS_Slug dev)) \<and>
   written (populate dev d) ''hostname'' = Some (VString (Hostname dev)) \<and>
   written (populate dev d) ''facility'' = Some (VString (Facility_Code dev)) \<and>
   written (populate dev d) ''plan'' = Some (VString (Plan_Slug dev)) \<and>
   written (populate dev d) ''state'' = Some (VString (State dev)) \<and>
   written (populate dev d) ''locked'' = Some (VBool (Locked dev))"
  by (simp add: populate_def Let_def SetConnInfo_def split_beta scan_network_other Set_attr_def)

lemma populate_written_addresses:
  "written (populate dev d) ''ipv4_address'' =
     (case last_address public_v4 (Network dev) of
        Some a \<Rightarrow> Some (VString a) | None \<Rightarrow> written d ''ipv4_address'') \<and>
   written (populate dev d) ''ipv4_address_private'' =
     (case last_address private_v4 (Network dev) of
        Some a \<Rightarrow> Some (VString a) | None \<Rightarrow> written d ''ipv4_address_private'') \<and>
   written (populate dev d) ''ipv6_address'' =
     (case last_address public_v6 (Network dev) of
        Some a \<Rightarrow> Some (VString a) | None \<Rightarrow> written d ''ipv6_address'')"
  by (simp add: populate_def Let_def SetConnInfo_def split_beta scan_network_ipv4
        scan_network_ipv4_private scan_network_ipv6 Set_attr_def split: option.splits)

lemma Get_populate_addresses:
  "Get (populate dev d) ''ipv4_address'' =
     (case last_address public_v4 (Network dev) of
        Some a \<Rightarrow> VString a | None \<Rightarrow> Get d ''ipv4_address'') \<and>
   Get (populate dev d) ''ipv4_address_private'' =
     (case last_address private_v4 (Network dev) of
        Some a \<Rightarrow> VString a | None \<Rightarrow> Get d ''ipv4_address_private'') \<and>
   Get (populate dev d) ''ipv6_address'' =
     (case last_address public_v6 (Network dev) of
        Some a \<Rightarrow> VString a | None \<Rightarrow> Get d ''ipv6_address'')"
  by (simp add: Get_def lookup_def populate_written_addresses populate_frame
        split: option.splits)

lemma Read_found:
  "Devices_Get client (Id' d) (world r) = (Inr dev, w1) \<Longrightarrow>
   resourcePacketDeviceRead client (d, r) =
     (None, populate dev d, \<lparr>world = w1, calls = calls r @ [CallGet (Id' d)]\<rparr>)"
  by (simp add: resourcePacketDeviceRead_def do_Get_def)

lemma Read_failed:
  "Devices_Get client (Id' d) (world r) = (Inl err, w1) \<Longrightarrow>
   resourcePacketDeviceRead client (d, r) =
     (if is_404 err then (None, d\<lparr>Id' := []\<rparr>, \<lparr>world = w1, calls = calls r @ [CallGet (Id' d)]\<rparr>)
      else (Some (ErrorString (''Error retrieving device: '' @ Error_text err)), d,
            \<lparr>world = w1, calls = calls r @ [CallGet (Id' d)]\<rparr>))"
  by (simp add: resourcePacketDeviceRead_def do_Get_def SetId_def)

lemma is_404_not_found: "is_404 not_found"
  by (simp add: is_404_def not_found_def Contains_def)

lemma not_404_server_error: "\<not> is_404 server_error"
  by (simp add: is_404_def server_error_def Contains_def sublist_code(3))

section \<open>Facts about the wait primitive\<close>

lemma poll_timeout:
  "Timeout conf \<le> elapsed \<Longrightarrow>
   poll backoff conf refresh elapsed polled s = Some ((None, Some TimeoutError), s, polled)"
  by (subst poll.simps) simp

lemma poll_error:
  "elapsed < Timeout conf \<Longrightarrow> refresh s = ((result, st, Some err), s1) \<Longrightarrow>
   poll backoff conf refresh elapsed polled s = Some ((None, Some err), s1, polled @ [elapsed])"
  by (subst poll.simps) (simp split: option.splits)

lemma poll_target:
  "elapsed < Timeout conf \<Longrightarrow> refresh s = ((Some snapshot, Target conf, None), s1) \<Longrightarrow>
   poll backoff conf refresh elapsed polled s = Some ((Some snapshot, None), s1, polled @ [elapsed])"
  by (subst poll.simps) simp

lemma poll_unexpected:
  "elapsed < Timeout conf \<Longrightarrow> refresh s = ((Some snapshot, st, None), s1) \<Longrightarrow>
   st \<noteq> Target conf \<Longrightarrow> st \<notin> set (Pending conf) \<Longrightarrow>
   poll backoff conf refresh elapsed polled s =
     Some ((None, Some (UnexpectedStateError st)), s1, polled @ [elapsed])"
  by (subst poll.simps) simp

lemma poll_continue:
  "elapsed < Timeout conf \<Longrightarrow> refresh s = (out, s1) \<Longrightarrow> keeps_waiting conf out \<Longrightarrow>
   poll backoff conf refresh elapsed polled s =
     poll backoff conf refresh (elapsed + max (MinTimeout conf) (backoff (length polled)))
       (polled @ [elapsed]) s1"
  by (subst poll.simps) (auto simp: keeps_waiting_def split: prod.splits option.splits)

lemma spaced_Cons:
  "spaced m ts \<Longrightarrow> (\<forall>t\<in>set ts. a + m \<le> t) \<Longrightarrow> spaced m (a # ts)"
  by (cases ts) simp_all

lemma timed_Nil: "0 < MinTimeout conf \<Longrightarrow> Timeout conf \<le> elapsed \<Longrightarrow> timed conf elapsed []"
  by (simp add: timed_def)

lemma timed_single: "elapsed < Timeout conf \<Longrightarrow> timed conf elapsed [elapsed]"
  by (simp add: timed_def)

lemma timed_Cons:
  assumes lt: "elapsed < Timeout conf" and iv: "MinTimeout conf \<le> iv"
    and new: "timed conf (elapsed + iv) new"
  shows "timed conf elapsed (elapsed # new)"
proof -
  let ?m = "MinTimeout conf" and ?T = "Timeout conf"
  have mem: "\<forall>t\<in>set new. elapsed + iv \<le> t \<and> t < ?T"
    using new by (simp add: timed_def list_all_iff)
  have sp: "spaced ?m new" using new by (simp add: timed_def)
  have len: "length new * ?m < (?T - (elapsed + iv)) + ?m" using new by (simp add: timed_def)
  have "spaced ?m (elapsed # new)"
    using sp mem iv by (intro spaced_Cons) auto
  moreover have "\<forall>t\<in>set (elapsed # new). elapsed \<le> t \<and> t < ?T"
    using mem lt by auto
  moreover have "length (elapsed # new) * ?m < (?T - elapsed) + ?m"
  proof (cases "elapsed + iv < ?T")
    case True
    then have "(?T - (elapsed + iv)) + ?m \<le> ?T - elapsed" using iv by simp
    then show ?thesis using len by simp
  next
    case False
    then have "new = []" using new by (simp add: timed_def)
    then show ?thesis using lt by simp
  qed
  ultimately show ?thesis using lt by (simp add: timed_def list_all_iff)
qed

text \<open>Total correctness with an invariant of the refresh function.\<close>

lemma poll_returns:
  assumes pos: "0 < MinTimeout conf"
    and step: "\<And>s out s1. I s \<Longrightarrow> refresh s = (out, s1) \<Longrightarrow> I s1"
  shows "I s \<Longrightarrow> \<exists>res s' new. poll backoff conf refresh elapsed polled s = Some (res, s', polled @ new)
            \<and> I s' \<and> timed conf elapsed new"
proof (induction "Timeout conf - elapsed" arbitrary: elapsed polled s rule: less_induct)
  case less
  show ?case
  proof (cases "Timeout conf \<le> elapsed")
    case True
    then show ?thesis using less.prems pos by (simp add: poll_timeout timed_Nil)
  next
    case False
    then have lt: "elapsed < Timeout conf" by simp
    obtain result st err s1 where r: "refresh s = ((result, st, err), s1)"
      by (metis prod.exhaust)
    have I1: "I s1" using step [OF less.prems r] .
    let ?iv = "max (MinTimeout conf) (backoff (length polled))"
    have dec: "Timeout conf - (elapsed + ?iv) < Timeout conf - elapsed" using lt pos by simp
    obtain res s' new where
      IH: "poll backoff conf refresh (elapsed + ?iv) (polled @ [elapsed]) s1 =
             Some (res, s', (polled @ [elapsed]) @ new)" "I s'" "timed conf (elapsed + ?iv) new"
      using less.hyps [OF dec I1] by blast
    have tc: "timed conf elapsed (elapsed # new)"
      using timed_Cons [OF lt _ IH(3)] by simp
    show ?thesis
    proof (cases "keeps_waiting conf (result, st, err)")
      case True
      then show ?thesis
        using poll_continue [of elapsed conf refresh s _ s1 backoff polled] lt r IH(1,2) tc by simp
    next
      case False
      then show ?thesis
        using lt r I1 timed_single [OF lt]
        by (subst poll.simps) (auto simp: keeps_waiting_def split: option.splits)
    qed
  qed
qed

lemma poll_keeps_waiting:
  assumes pos: "0 < MinTimeout conf"
    and step: "\<And>s out s1. I s \<Longrightarrow> refresh s = (out, s1) \<Longrightarrow> keeps_waiting conf out \<and> I s1"
  shows "I s \<Longrightarrow> \<exists>s' ts. poll backoff conf refresh elapsed polled s =
            Some ((None, Some TimeoutError), s', ts)"
proof (induction "Timeout conf - elapsed" arbitrary: elapsed polled s rule: less_induct)
  case less
  show ?case
  proof (cases "Timeout conf \<le> elapsed")
    case True
    then show ?thesis by (simp add: poll_timeout)
  next
    case False
    then have lt: "elapsed < Timeout conf" by simp
    obtain out s1 where r: "refresh s = (out, s1)"
      by (metis prod.exhaust)
    have kw: "keeps_waiting conf out" and I1: "I s1" using step [OF less.prems r] by simp_all
    let ?iv = "max (MinTimeout conf) (backoff (length polled))"
    have dec: "Timeout conf - (elapsed + ?iv) < Timeout conf - elapsed" using lt pos by simp
    show ?thesis
      using poll_continue [of elapsed conf refresh s out s1 backoff polled] lt r kw
        less.hyps [OF dec I1] by simp
  qed
qed


section \<open>Facts about the refresh function\<close>

lemma GetOk_populate_state:
  "GetOk (populate dev d) ''state'' = (VString (State dev), State dev \<noteq> [])"
  by (simp add: GetOk_def lookup_def populate_written_fields zero_val_def)

lemma refresh_found:
  assumes "Devices_Get client (Id' d) (world r) = (Inr dev1, w1)" and "State dev1 \<noteq> []"
  shows "newDeviceStateRefreshFunc client ''state'' (d, r) =
     (case Devices_Get client (Id' d) w1 of
        (Inl err, w2) \<Rightarrow>
          ((None, [], Some (ErrorString (''Error retrieving device: '' @ Error_text err))),
           populate dev1 d, \<lparr>world = w2, calls = calls r @ [CallGet (Id' d), CallGet (Id' d)]\<rparr>)
      | (Inr dev2, w2) \<Rightarrow>
          ((Some dev2, State dev1, None),
           populate dev1 d, \<lparr>world = w2, calls = calls r @ [CallGet (Id' d), CallGet (Id' d)]\<rparr>))"
  using assms
  by (simp add: newDeviceStateRefreshFunc_def Read_found GetOk_populate_state do_Get_def
        populate_frame split: prod.splits sum.splits)

lemma refresh_no_state:
  assumes "Devices_Get client (Id' d) (world r) = (Inr dev1, w1)" and "State dev1 = []"
  shows "newDeviceStateRefreshFunc client ''state'' (d, r) =
     ((None, [], None), populate dev1 d, \<lparr>world = w1, calls = calls r @ [CallGet (Id' d)]\<rparr>)"
  using assms
  by (simp add: newDeviceStateRefreshFunc_def Read_found GetOk_populate_state)

lemmas ex_defs = scripted_client_def example_device_def tracked_data_def fresh_remote_def
  two_public_def mixed_network_def

lemma refresh_get_failed:
  assumes "Devices_Get client (Id' d) (world r) = (Inl err, w1)"
  shows "newDeviceStateRefreshFunc client ''state'' (d, r) =
     (if is_404 err then
        (if snd (GetOk d ''state'') then
           (case Devices_Get client [] w1 of
              (Inl err2, w2) \<Rightarrow>
                ((None, [], Some (ErrorString (''Error retrieving device: '' @ Error_text err2))),
                 d\<lparr>Id' := []\<rparr>, \<lparr>world = w2, calls = calls r @ [CallGet (Id' d), CallGet []]\<rparr>)
            | (Inr dev, w2) \<Rightarrow>
                ((Some dev, as_string (fst (GetOk d ''state'')), None),
                 d\<lparr>Id' := []\<rparr>, \<lparr>world = w2, calls = calls r @ [CallGet (Id' d), CallGet []]\<rparr>))
         else ((None, [], None), d\<lparr>Id' := []\<rparr>,
               \<lparr>world = w1, calls = calls r @ [CallGet (Id' d)]\<rparr>))
      else ((None, [], Some (ErrorString (''Error retrieving device: '' @ Error_text err))), d,
            \<lparr>world = w1, calls = calls r @ [CallGet (Id' d)]\<rparr>))"
  using assms
  by (simp add: newDeviceStateRefreshFunc_def Read_failed do_Get_def GetOk_def lookup_def
        split: prod.splits sum.splits option.splits)

lemma GetOk_tracked: "GetOk tracked_data ''state'' = (VString [], False)"
  by (simp add: GetOk_def lookup_def tracked_data_def zero_val_def)

lemma GetOk_active: "GetOk active_data ''state'' = (VString ''active'', True)"
  by (simp add: GetOk_def lookup_def active_data_def tracked_data_def zero_val_def)

lemma Id_examples: "Id' tracked_data = ''d1''" "Id' active_data = ''d1''"
  "calls fresh_remote = []" "world fresh_remote = 0"
  by (simp_all add: tracked_data_def active_data_def fresh_remote_def)

lemma scripted_Get:
  "Devices_Get (scripted_client created gets later deleted locked) i n =
     (if n < length gets then gets ! n else later, Suc n)"
  by (simp add: scripted_client_def)

lemma Get_populate_fields:
  "Get (populate dev d) ''os'' = VString (OS_Slug dev) \<and>
   Get (populate dev d) ''hostname'' = VString (Hostname dev) \<and>
   Get (populate dev d) ''facility'' = VString (Facility_Code dev) \<and>
   Get (populate dev d) ''plan'' = VString (Plan_Slug dev) \<and>
   Get (populate dev d) ''state'' = VString (State dev) \<and>
   Get (populate dev d) ''locked'' = VBool (Locked dev)"
  by (simp add: Get_def lookup_def populate_written_fields)

lemma Read_data:
  "data_after (resourcePacketDeviceRead client (d, r)) =
     (case fst (Devices_Get client (Id' d) (world r)) of
        Inl err \<Rightarrow> if is_404 err then d\<lparr>Id' := []\<rparr> else d
      | Inr dev \<Rightarrow> populate dev d)"
  by (simp add: resourcePacketDeviceRead_def do_Get_def data_after_def SetId_def
        split: prod.splits sum.splits)

lemma refresh_data:
  "data_after (newDeviceStateRefreshFunc client attribute (d, r)) =
   data_after (resourcePacketDeviceRead client (d, r))"
  by (simp add: newDeviceStateRefreshFunc_def data_after_def do_Get_def
        split: prod.splits sum.splits option.splits bool.splits)

section \<open>Facts about Update\<close>

lemma Read_remote:
  "remote_after (resourcePacketDeviceRead client (d, r)) =
     \<lparr>world = snd (Devices_Get client (Id' d) (world r)), calls = calls r @ [CallGet (Id' d)]\<rparr>"
  by (simp add: resourcePacketDeviceRead_def do_Get_def remote_after_def
        split: prod.splits sum.splits)

lemma calls_made_append: "calls r' = calls r @ cs \<Longrightarrow> calls_made r r' = cs"
  by (simp add: calls_made_def)

lemma Update_unfold:
  assumes l: "Devices_Lock client (Id' d) (world r) = (lres, wl)"
      and u: "Devices_Unlock client (Id' d) (world r) = (ures, wu)"
  shows "resourcePacketDeviceUpdate client (d, r) =
     (if HasChange d ''locked'' then
        (if as_bool (Get d ''locked'') then
           (case lres of
              Some err \<Rightarrow>
                (Some (ErrorString (''Error locking device ('' @ Id' d @ ''): '' @ Error_text err)),
                 d, \<lparr>world = wl, calls = calls r @ [CallLock (Id' d)]\<rparr>)
            | None \<Rightarrow>
                resourcePacketDeviceRead client
                  (d, \<lparr>world = wl, calls = calls r @ [CallLock (Id' d)]\<rparr>))
         else
           (case ures of
              Some err \<Rightarrow>
                (Some (ErrorString (''Error unlocking device ('' @ Id' d @ ''): '' @ Error_text err)),
                 d, \<lparr>world = wu, calls = calls r @ [CallUnlock (Id' d)]\<rparr>)
            | None \<Rightarrow>
                resourcePacketDeviceRead client
                  (d, \<lparr>world = wu, calls = calls r @ [CallUnlock (Id' d)]\<rparr>)))
      else resourcePacketDeviceRead client (d, r))"
  using l u
  by (simp add: resourcePacketDeviceUpdate_def do_Lock_def do_Unlock_def split: option.splits)

lemma Update_calls:
  assumes l: "Devices_Lock client (Id' d) (world r) = (lres, wl)"
      and u: "Devices_Unlock client (Id' d) (world r) = (ures, wu)"
  shows "calls_made r (remote_after (resourcePacketDeviceUpdate client (d, r))) =
     (if HasChange d ''locked'' then
        (if as_bool (Get d ''locked'')
         then CallLock (Id' d) # (if lres = None then [CallGet (Id' d)] else [])
         else CallUnlock (Id' d) # (if ures = None then [CallGet (Id' d)] else []))
      else [CallGet (Id' d)])"
proof -
  have t: "\<And>a b c. remote_after (a, b, c) = c" by (simp add: remote_after_def)
  show ?thesis
    by (cases lres; cases ures)
       (simp_all add: Update_unfold [OF l u] Read_remote t calls_made_def)
qed

lemma locking_facts:
  "HasChange locking_data ''locked''" "as_bool (Get locking_data ''locked'')"
  "Id' locking_data = ''d1''"
  by (simp_all add: locking_data_def tracked_data_def HasChange_def Get_def lookup_def)

lemma unlocking_facts:
  "HasChange unlocking_data ''locked''" "\<not> as_bool (Get unlocking_data ''locked'')"
  "Id' unlocking_data = ''d1''"
  by (simp_all add: unlocking_data_def tracked_data_def HasChange_def Get_def lookup_def)

lemma tracked_unchanged: "\<not> HasChange tracked_data ''locked''"
  by (simp add: tracked_data_def HasChange_def)

lemma scripted_Lock:
  "Devices_Lock (scripted_client created gets later deleted locked) i n = (locked, n)"
  "Devices_Unlock (scripted_client created gets later deleted locked) i n = (locked, n)"
  by (simp_all add: scripted_client_def)

section \<open>Facts about waiting for a device attribute\<close>

lemma WaitForState_pending:
  assumes pos: "0 < MinTimeout conf"
    and step: "\<And>s out s1. I s \<Longrightarrow> refresh s = (out, s1) \<Longrightarrow> keeps_waiting conf out \<and> I s1"
    and init: "I s"
  shows "\<exists>s' ts. WaitForState backoff conf refresh s = Some ((None, Some TimeoutError), s', ts) \<and>
           timed conf (Delay conf) ts"
proof -
  have step': "\<And>s out s1. I s \<Longrightarrow> refresh s = (out, s1) \<Longrightarrow> I s1"
    using step by blast
  obtain s' ts where a: "poll backoff conf refresh (Delay conf) [] s =
      Some ((None, Some TimeoutError), s', ts)"
    using poll_keeps_waiting [of conf I refresh s backoff "Delay conf" "[]"] pos step init
    by blast
  obtain res s2 new where b: "poll backoff conf refresh (Delay conf) [] s = Some (res, s2, [] @ new)"
      "timed conf (Delay conf) new"
    using poll_returns [of conf I refresh s backoff "Delay conf" "[]"] pos step' init
    by blast
  from a b show ?thesis by (simp add: WaitForState_def)
qed

lemma deviceStateConf_fields:
  "Timeout (deviceStateConf target pending) = 3600000000000"
  "Delay (deviceStateConf target pending) = 10000000000"
  "MinTimeout (deviceStateConf target pending) = 3000000000"
  "Target (deviceStateConf target pending) = target"
  "Pending (deviceStateConf target pending) = pending"
  by (simp_all add: deviceStateConf_def Minute_def Second_def)

lemma always_queued:
  "newDeviceStateRefreshFunc
     (scripted_client created [] (Inr (example_device ''queued'' [])) deleted locked) ''state'' (d, r) =
   ((Some (example_device ''queued'' []), ''queued'', None),
    populate (example_device ''queued'' []) d,
    \<lparr>world = Suc (Suc (world r)), calls = calls r @ [CallGet (Id' d), CallGet (Id' d)]\<rparr>)"
proof -
  have g: "Devices_Get (scripted_client created [] (Inr (example_device ''queued'' [])) deleted locked)
            (Id' d) (world r) = (Inr (example_device ''queued'' []), Suc (world r))"
    by (simp add: scripted_Get)
  have s: "State (example_device ''queued'' []) \<noteq> []" "State (example_device ''queued'' []) = ''queued''"
    by (simp_all add: example_device_def)
  show ?thesis using refresh_found [OF g s(1)] by (simp add: scripted_Get s(2))
qed

text \<open>The ID through a wait.\<close>

lemma refresh_Id:
  "Id' (data_after (newDeviceStateRefreshFunc client attribute (d, r))) = Id' d \<or>
   Id' (data_after (newDeviceStateRefreshFunc client attribute (d, r))) = []"
  by (simp add: refresh_data Read_data populate_frame split: sum.splits)

lemma refresh_Id_kept:
  assumes "\<forall>i w e. fst (Devices_Get client i w) = Inl e \<longrightarrow> \<not> is_404 e"
  shows "Id' (data_after (newDeviceStateRefreshFunc client attribute (d, r))) = Id' d"
  using assms by (auto simp: refresh_data Read_data populate_frame split: sum.splits)

lemma WaitForDeviceAttribute_Id:
  "\<exists>res err d2 r2 ts.
     WaitForDeviceAttribute backoff client d target pending attribute r =
       Some ((res, err), (d2, r2), ts) \<and>
     (Id' d2 = Id' d \<or> Id' d2 = []) \<and>
     ((\<forall>i w e. fst (Devices_Get client i w) = Inl e \<longrightarrow> \<not> is_404 e) \<longrightarrow> Id' d2 = Id' d)"
proof -
  let ?conf = "deviceStateConf target pending"
  let ?refresh = "newDeviceStateRefreshFunc client attribute"
  let ?kept = "\<forall>i w e. fst (Devices_Get client i w) = Inl e \<longrightarrow> \<not> is_404 e"
  let ?I = "\<lambda>s. (Id' (fst s) = Id' d \<or> Id' (fst s) = []) \<and> (?kept \<longrightarrow> Id' (fst s) = Id' d)"
  have pos: "0 < MinTimeout ?conf" by (simp add: deviceStateConf_fields)
  have step: "?I s1" if "?I s" "?refresh s = (out, s1)" for s out s1
  proof -
    obtain d0 r0 where s: "s = (d0, r0)" by (cases s)
    have e: "fst s1 = data_after (?refresh (d0, r0))"
      using that(2) s by (cases s1) (simp add: data_after_def)
    show ?thesis
      using that(1) refresh_Id [of client attribute d0 r0]
        refresh_Id_kept [of client attribute d0 r0]
      unfolding e s by auto
  qed
  have "\<exists>res s' new. poll backoff ?conf ?refresh (Delay ?conf) [] (d, r) = Some (res, s', [] @ new) \<and>
          ?I s' \<and> timed ?conf (Delay ?conf) new"
  proof (rule poll_returns [where I = ?I])
    show "0 < MinTimeout ?conf" by (rule pos)
    show "?I s1" if "?I s" "?refresh s = (out, s1)" for s out s1
      using that by (rule step)
    show "?I (d, r)" by simp
  qed
  then obtain res s' new where
    p: "poll backoff ?conf ?refresh (Delay ?conf) [] (d, r) = Some (res, s', [] @ new)"
    and i: "?I s'"
    by blast
  obtain a e where res: "res = (a, e)" by (cases res)
  obtain d2 r2 where s': "s' = (d2, r2)" by (cases s')
  show ?thesis
    using p i unfolding res s' by (simp add: WaitForDeviceAttribute_def WaitForState_def)
qed

lemma scripted_Create:
  "Devices_Create (scripted_client created gets later deleted locked) opts n = (created, n)"
  by (simp add: scripted_client_def)

lemma scripted_Delete:
  "Devices_Delete (scripted_client created gets later deleted locked) i n = (deleted, n)"
  by (simp add: scripted_client_def)

lemma error_texts:
  "Error_text server_error = ''500 Internal Server Error''"
  "Error_text not_found = ''404 Not Found''"
  by (simp_all add: server_error_def not_found_def)

lemma poll_pending:
  assumes pos: "0 < MinTimeout conf"
    and step: "\<And>s out s1. I s \<Longrightarrow> refresh s = (out, s1) \<Longrightarrow> keeps_waiting conf out \<and> I s1"
    and init: "I s"
  shows "\<exists>s' ts. poll backoff conf refresh elapsed polled s =
           Some ((None, Some TimeoutError), s', ts) \<and> I s'"
proof -
  have step': "\<And>s out s1. I s \<Longrightarrow> refresh s = (out, s1) \<Longrightarrow> I s1"
    using step by blast
  obtain s' ts where a: "poll backoff conf refresh elapsed polled s =
      Some ((None, Some TimeoutError), s', ts)"
    using poll_keeps_waiting [of conf I refresh s backoff elapsed polled] pos step init
    by blast
  obtain res s2 new where b: "poll backoff conf refresh elapsed polled s = Some (res, s2, polled @ new)"
      "I s2"
    using poll_returns [of conf I refresh s backoff elapsed polled] pos step' init
    by blast
  from a b show ?thesis by simp
qed

lemma GetOk_Id_update: "GetOk (d\<lparr>Id' := i\<rparr>) key = GetOk d key"
  by (simp add: GetOk_def lookup_def split: option.splits)

lemma gone_no_state:
  assumes "\<not> snd (GetOk d ''state'')"
  shows "newDeviceStateRefreshFunc
     (scripted_client created [] (Inl not_found) deleted locked) ''state'' (d, r) =
   ((None, [], None), d\<lparr>Id' := []\<rparr>,
    \<lparr>world = Suc (world r), calls = calls r @ [CallGet (Id' d)]\<rparr>)"
proof -
  have g: "Devices_Get (scripted_client created [] (Inl not_found) deleted locked)
            (Id' d) (world r) = (Inl not_found, Suc (world r))"
    by (simp add: scripted_Get)
  show ?thesis using refresh_get_failed [OF g] assms by (simp add: is_404_not_found)
qed

section \<open>Facts about the schedule of a wait\<close>

lemma poll_time_upper:
  "(\<forall>i<k. backoff i \<le> B) \<Longrightarrow>
   poll_time backoff conf k \<le> Delay conf + k * max (MinTimeout conf) B"
proof (induction k)
  case 0
  then show ?case by simp
next
  case (Suc k)
  then have "poll_time backoff conf k \<le> Delay conf + k * max (MinTimeout conf) B"
    by simp
  moreover have "max (MinTimeout conf) (backoff k) \<le> max (MinTimeout conf) B"
    using Suc.prems by (simp add: max.coboundedI2)
  ultimately show ?case by simp
qed

lemma poll_schedule:
  assumes pos: "0 < MinTimeout conf"
    and pending: "\<And>k. poll_time backoff conf k < Timeout conf \<Longrightarrow>
                   keeps_waiting conf (fst (refresh (state_at refresh s k)))"
  shows "\<exists>n. j \<le> n \<and>
           poll backoff conf refresh (poll_time backoff conf j)
             (map (poll_time backoff conf) [0..<j]) (state_at refresh s j) =
             Some ((None, Some TimeoutError), state_at refresh s n,
                   map (poll_time backoff conf) [0..<n]) \<and>
           (\<forall>k. j \<le> k \<and> k < n \<longrightarrow> poll_time backoff conf k < Timeout conf) \<and>
           Timeout conf \<le> poll_time backoff conf n"
proof (induction "Timeout conf - poll_time backoff conf j" arbitrary: j rule: less_induct)
  case less
  show ?case
  proof (cases "Timeout conf \<le> poll_time backoff conf j")
    case True
    then show ?thesis
      by (intro exI [of _ j]) (simp add: poll_timeout)
  next
    case False
    then have lt: "poll_time backoff conf j < Timeout conf" by simp
    obtain out s1 where r: "refresh (state_at refresh s j) = (out, s1)"
      by (metis prod.exhaust)
    have kw: "keeps_waiting conf out" using pending [OF lt] r by simp
    have dec: "Timeout conf - poll_time backoff conf (Suc j) < Timeout conf - poll_time backoff conf j"
      using lt pos by simp
    obtain n where n: "Suc j \<le> n"
      "poll backoff conf refresh (poll_time backoff conf (Suc j))
             (map (poll_time backoff conf) [0..<Suc j]) (state_at refresh s (Suc j)) =
             Some ((None, Some TimeoutError), state_at refresh s n,
                   map (poll_time backoff conf) [0..<n])"
      "\<forall>k. Suc j \<le> k \<and> k < n \<longrightarrow> poll_time backoff conf k < Timeout conf"
      "Timeout conf \<le> poll_time backoff conf n"
      using less [OF dec] by blast
    have c: "poll backoff conf refresh (poll_time backoff conf j)
             (map (poll_time backoff conf) [0..<j]) (state_at refresh s j) =
          poll backoff conf refresh
             (poll_time backoff conf j +
                max (MinTimeout conf) (backoff (length (map (poll_time backoff conf) [0..<j]))))
             (map (poll_time backoff conf) [0..<j] @ [poll_time backoff conf j]) s1"
      using lt r kw by (rule poll_continue)
    have step: "poll backoff conf refresh (poll_time backoff conf j)
             (map (poll_time backoff conf) [0..<j]) (state_at refresh s j) =
          poll backoff conf refresh (poll_time backoff conf (Suc j))
             (map (poll_time backoff conf) [0..<Suc j]) (state_at refresh s (Suc j))"
      using c by (simp add: r)
    have all: "\<forall>k. j \<le> k \<and> k < n \<longrightarrow> poll_time backoff conf k < Timeout conf"
    proof (intro allI impI)
      fix k assume "j \<le> k \<and> k < n"
      then show "poll_time backoff conf k < Timeout conf"
        using lt n(3) by (cases "k = j") auto
    qed
    show ?thesis
      using n(1,2,4) step all by (intro exI [of _ n]) simp
  qed
qed


lemma poll_timed:
  assumes pos: "0 < MinTimeout conf"
    and run: "poll backoff conf refresh elapsed [] s = Some (res, s', ts)"
  shows "timed conf elapsed ts"
proof -
  have "\<exists>res s' new. poll backoff conf refresh elapsed [] s = Some (res, s', [] @ new) \<and>
          True \<and> timed conf elapsed new"
    by (rule poll_returns [where I = "\<lambda>s. True"]) (simp_all add: pos)
  then show ?thesis using run by auto
qed

lemma poll_time_no_backoff:
  "poll_time no_backoff conf k = Delay conf + k * MinTimeout conf"
  by (induction k) (simp_all add: no_backoff_def)

lemma slow_queued:
  assumes "Suc (world r) < 2394"
  shows "newDeviceStateRefreshFunc slow_client ''state'' (d, r) =
   ((Some (example_device ''queued'' []), ''queued'', None),
    populate (example_device ''queued'' []) d,
    \<lparr>world = Suc (Suc (world r)), calls = calls r @ [CallGet (Id' d), CallGet (Id' d)]\<rparr>)"
proof -
  have g: "Devices_Get slow_client (Id' d) (world r) =
             (Inr (example_device ''queued'' []), Suc (world r))"
    using assms by (simp add: slow_client_def scripted_Get)
  have g2: "Devices_Get slow_client (Id' d) (Suc (world r)) =
             (Inr (example_device ''queued'' []), Suc (Suc (world r)))"
    using assms by (simp add: slow_client_def scripted_Get)
  have s: "State (example_device ''queued'' []) \<noteq> []" "State (example_device ''queued'' []) = ''queued''"
    by (simp_all add: example_device_def)
  show ?thesis using refresh_found [OF g s(1)] by (simp add: g2 s(2))
qed

lemma slow_active:
  assumes "2394 \<le> world r"
  shows "newDeviceStateRefreshFunc slow_client ''state'' (d, r) =
   ((Some (example_device ''active'' []), ''active'', None),
    populate (example_device ''active'' []) d,
    \<lparr>world = Suc (Suc (world r)), calls = calls r @ [CallGet (Id' d), CallGet (Id' d)]\<rparr>)"
proof -
  have g: "Devices_Get slow_client (Id' d) (world r) =
             (Inr (example_device ''active'' []), Suc (world r))"
    using assms by (simp add: slow_client_def scripted_Get)
  have g2: "Devices_Get slow_client (Id' d) (Suc (world r)) =
             (Inr (example_device ''active'' []), Suc (Suc (world r)))"
    using assms by (simp add: slow_client_def scripted_Get)
  have s: "State (example_device ''active'' []) \<noteq> []" "State (example_device ''active'' []) = ''active''"
    by (simp_all add: example_device_def)
  show ?thesis using refresh_found [OF g s(1)] by (simp add: g2 s(2))
qed

lemma slow_world:
  "k \<le> 1197 \<Longrightarrow>
   world (snd (state_at (newDeviceStateRefreshFunc slow_client ''state'')
                 (tracked_data, fresh_remote) k)) = 2 * k"
proof (induction k)
  case 0
  then show ?case by (simp add: fresh_remote_def)
next
  case (Suc k)
  let ?s = "state_at (newDeviceStateRefreshFunc slow_client ''state'') (tracked_data, fresh_remote) k"
  obtain d r where s: "?s = (d, r)" by (cases ?s)
  have w: "world r = 2 * k" using Suc s by simp
  have "Suc (world r) < 2394" using w Suc.prems by simp
  from slow_queued [OF this, of d] show ?case by (simp add: s w)
qed

section \<open>The claims\<close>

subsection \<open>C1: which address of a class Read records\<close>

text \<open>
  C1, as amended. When the \<open>Get\<close> of a Read returns a device, the scan of its network
  addresses leaves in \<open>ipv4_address\<close> the address of the last public IPv4 entry of the
  list, in \<open>ipv4_address_private\<close> that of the last private IPv4 entry and in
  \<open>ipv6_address\<close> that of the last public IPv6 entry: every entry of a class overwrites
  what an earlier entry of that class recorded (last-seen wins in the order of the list).
  An attribute whose class has no entry keeps the value it had, and the host of the
  connection info is the last public IPv4 address, or the empty string when there is none.
\<close>

theorem C1_last_seen_wins:
  assumes "Devices_Get client (Id' d) (world r) = (Inr dev, w1)"
  shows "Get (data_after (resourcePacketDeviceRead client (d, r))) ''ipv4_address'' =
           (case last_address public_v4 (Network dev) of
              Some a \<Rightarrow> VString a | None \<Rightarrow> Get d ''ipv4_address'') \<and>
         Get (data_after (resourcePacketDeviceRead client (d, r))) ''ipv4_address_private'' =
           (case last_address private_v4 (Network dev) of
              Some a \<Rightarrow> VString a | None \<Rightarrow> Get d ''ipv4_address_private'') \<and>
         Get (data_after (resourcePacketDeviceRead client (d, r))) ''ipv6_address'' =
           (case last_address public_v6 (Network dev) of
              Some a \<Rightarrow> VString a | None \<Rightarrow> Get d ''ipv6_address'') \<and>
         ConnInfo (data_after (resourcePacketDeviceRead client (d, r))) ''host'' =
           Some (case last_address public_v4 (Network dev) of Some a \<Rightarrow> a | None \<Rightarrow> [])"
  using assms Get_populate_addresses [of dev d]
  by (simp add: Read_found data_after_def populate_ConnInfo)

text \<open>
  An instance: of the private IPv4 addresses 10.0.0.5 and 10.0.0.7 of the list, the later
  one is recorded.
\<close>

theorem C1_last_seen_wins_witness:
  "Devices_Get (scripted_client (Inl not_found) [] (Inr (example_device ''active'' mixed_network)) None None)
     (Id' tracked_data) (world fresh_remote) = (Inr (example_device ''active'' mixed_network), 1) \<and>
   Get (data_after (resourcePacketDeviceRead
      (scripted_client (Inl not_found) [] (Inr (example_device ''active'' mixed_network)) None None)
      (tracked_data, fresh_remote))) ''ipv4_address'' = VString ''147.1.2.3'' \<and>
   Get (data_after (resourcePacketDeviceRead
      (scripted_client (Inl not_found) [] (Inr (example_device ''active'' mixed_network)) None None)
      (tracked_data, fresh_remote))) ''ipv4_address_private'' = VString ''10.0.0.7'' \<and>
   Get (data_after (resourcePacketDeviceRead
      (scripted_client (Inl not_found) [] (Inr (example_device ''active'' mixed_network)) None None)
      (tracked_data, fresh_remote))) ''ipv6_address'' = VString ''2604::1'' \<and>
   ConnInfo (data_after (resourcePacketDeviceRead
      (scripted_client (Inl not_found) [] (Inr (example_device ''active'' mixed_network)) None None)
      (tracked_data, fresh_remote))) ''host'' = Some ''147.1.2.3''"
proof -
  have h: "Devices_Get (scripted_client (Inl not_found) [] (Inr (example_device ''active'' mixed_network)) None None)
     (Id' tracked_data) (world fresh_remote) = (Inr (example_device ''active'' mixed_network), 1)"
    by (simp add: scripted_client_def fresh_remote_def)
  have n: "Network (example_device ''active'' mixed_network) = mixed_network"
    by (simp add: example_device_def)
  have l: "last_address public_v4 mixed_network = Some ''147.1.2.3''"
    "last_address private_v4 mixed_network = Some ''10.0.0.7''"
    "last_address public_v6 mixed_network = Some ''2604::1''"
    by (simp_all add: last_address_def mixed_network_def public_v4_def private_v4_def public_v6_def)
  show ?thesis
    using h C1_last_seen_wins [OF h] by (simp add: n l)
qed

text \<open>
  C1 as stated fails: for the list of the two public IPv4 addresses 147.1.2.3 and
  147.9.9.9, in this order, the first public IPv4 address is 147.1.2.3 and Read records
  147.9.9.9 as \<open>ipv4_address\<close>.
\<close>

theorem C1_first_seen_counterexample:
  "first_address public_v4 (Network (example_device ''active'' two_public)) = Some ''147.1.2.3'' \<and>
   Get (data_after (resourcePacketDeviceRead
      (scripted_client (Inl not_found) [] (Inr (example_device ''active'' two_public)) None None)
      (tracked_data, fresh_remote))) ''ipv4_address'' = VString ''147.9.9.9''"
  by (simp add: first_address_def public_v4_def ex_defs resourcePacketDeviceRead_def do_Get_def
        populate_def Let_def Set_attr_def SetConnInfo_def Get_def lookup_def data_after_def)

subsection \<open>C2: the refresh function when the device is not found\<close>

text \<open>
  C2, as amended. When the \<open>Get\<close> of the Read inside the refresh function reports that the
  device is not found, the refresh function does not report the absence: the Read clears
  the local ID and returns no error, and the refresh function then returns no value and
  no error when the awaited attribute is not set locally, and otherwise the outcome of a
  second \<open>Get\<close>, made with the empty ID (its error wrapped, or its device with the
  locally known attribute value). Only an error of the first \<open>Get\<close> other than not-found
  is returned as an error, wrapped, with the resource data unchanged. The awaited
  attribute is \<open>state\<close>, as in every call of the code.
\<close>

theorem C2_refresh_not_found:
  assumes "Devices_Get client (Id' d) (world r) = (Inl err, w1)"
  shows "newDeviceStateRefreshFunc client ''state'' (d, r) =
     (if is_404 err then
        (if snd (GetOk d ''state'') then
           (case Devices_Get client [] w1 of
              (Inl err2, w2) \<Rightarrow>
                ((None, [], Some (ErrorString (''Error retrieving device: '' @ Error_text err2))),
                 d\<lparr>Id' := []\<rparr>, \<lparr>world = w2, calls = calls r @ [CallGet (Id' d), CallGet []]\<rparr>)
            | (Inr dev, w2) \<Rightarrow>
                ((Some dev, as_string (fst (GetOk d ''state'')), None),
                 d\<lparr>Id' := []\<rparr>, \<lparr>world = w2, calls = calls r @ [CallGet (Id' d), CallGet []]\<rparr>))
         else ((None, [], None), d\<lparr>Id' := []\<rparr>,
               \<lparr>world = w1, calls = calls r @ [CallGet (Id' d)]\<rparr>))
      else ((None, [], Some (ErrorString (''Error retrieving device: '' @ Error_text err))), d,
            \<lparr>world = w1, calls = calls r @ [CallGet (Id' d)]\<rparr>))"
  using assms
  by (simp add: newDeviceStateRefreshFunc_def Read_failed do_Get_def GetOk_def lookup_def
        split: prod.splits sum.splits option.splits)

text \<open>
  Instances: not found with no local state, not found with the local state \<open>active\<close>,
  and a server error.
\<close>

theorem C2_refresh_not_found_witness:
  "newDeviceStateRefreshFunc (scripted_client (Inl not_found) [] (Inl not_found) None None)
     ''state'' (tracked_data, fresh_remote) =
     ((None, [], None), tracked_data\<lparr>Id' := []\<rparr>, \<lparr>world = 1, calls = [CallGet ''d1'']\<rparr>) \<and>
   newDeviceStateRefreshFunc (scripted_client (Inl not_found) [] (Inl not_found) None None)
     ''state'' (active_data, fresh_remote) =
     ((None, [], Some (ErrorString ''Error retrieving device: 404 Not Found'')),
      active_data\<lparr>Id' := []\<rparr>, \<lparr>world = 2, calls = [CallGet ''d1'', CallGet []]\<rparr>) \<and>
   newDeviceStateRefreshFunc (scripted_client (Inl not_found) [] (Inl server_error) None None)
     ''state'' (tracked_data, fresh_remote) =
     ((None, [], Some (ErrorString ''Error retrieving device: 500 Internal Server Error'')),
      tracked_data, \<lparr>world = 1, calls = [CallGet ''d1'']\<rparr>)"
proof -
  have a: "Devices_Get (scripted_client (Inl not_found) [] (Inl not_found) None None)
             (Id' tracked_data) (world fresh_remote) = (Inl not_found, 1)"
    by (simp add: scripted_Get Id_examples)
  have b: "Devices_Get (scripted_client (Inl not_found) [] (Inl not_found) None None)
             (Id' active_data) (world fresh_remote) = (Inl not_found, 1)"
    by (simp add: scripted_Get Id_examples)
  have c: "Devices_Get (scripted_client (Inl not_found) [] (Inl server_error) None None)
             (Id' tracked_data) (world fresh_remote) = (Inl server_error, 1)"
    by (simp add: scripted_Get Id_examples)
  have t: "Error_text server_error = ''500 Internal Server Error''"
    "Error_text not_found = ''404 Not Found''"
    by (simp_all add: server_error_def not_found_def)
  show ?thesis
    using C2_refresh_not_found [OF a] C2_refresh_not_found [OF b] C2_refresh_not_found [OF c]
    by (simp add: is_404_not_found not_404_server_error GetOk_tracked GetOk_active Id_examples
          scripted_Get t)
qed

text \<open>
  C2 as stated fails: against a remote that answers every \<open>Get\<close> with \<open>404 Not Found\<close>,
  the refresh function returns no snapshot, no value and no error, which is also what it
  returns for a device that is found and whose state is still empty.
\<close>

theorem C2_not_found_swallowed_counterexample:
  "is_404 not_found \<and>
   fst (newDeviceStateRefreshFunc (scripted_client (Inl not_found) [] (Inl not_found) None None)
          ''state'' (tracked_data, fresh_remote)) = (None, [], None) \<and>
   fst (newDeviceStateRefreshFunc
          (scripted_client (Inl not_found) [] (Inr (example_device [] [])) None None)
          ''state'' (tracked_data, fresh_remote)) = (None, [], None)"
proof -
  have a: "Devices_Get (scripted_client (Inl not_found) [] (Inl not_found) None None)
             (Id' tracked_data) (world fresh_remote) = (Inl not_found, 1)"
    by (simp add: scripted_Get Id_examples)
  have b: "Devices_Get (scripted_client (Inl not_found) [] (Inr (example_device [] [])) None None)
             (Id' tracked_data) (world fresh_remote) = (Inr (example_device [] []), 1)"
    by (simp add: scripted_Get Id_examples)
  have s: "State (example_device [] []) = []" by (simp add: example_device_def)
  show ?thesis
    using refresh_get_failed [OF a] refresh_no_state [OF b s]
    by (simp add: is_404_not_found GetOk_tracked)
qed

subsection \<open>C3: Delete of a device that is gone\<close>

text \<open>
  C3. The code at the failing input: a resource tracked as \<open>d1\<close> with the state \<open>active\<close>
  of an earlier Read, and a remote on which the device is gone, which answers every \<open>Get\<close>
  and the \<open>Delete\<close> with \<open>404 Not Found\<close>. The first tick of the pre-delete wait clears
  the ID and fails on its second \<open>Get\<close>; Delete returns the error of the wait, and the
  remote \<open>Delete\<close> is never called. For the same resource with no state known locally,
  every tick reports no value, the wait ends with its timeout error, and Delete returns
  that error.
\<close>

theorem C3_delete_of_vanished_device:
  "is_404 not_found \<and>
   resourcePacketDeviceDelete no_backoff
     (scripted_client (Inl not_found) [] (Inl not_found) (Some not_found) None)
     (active_data, fresh_remote) =
     Some (Some (ErrorString
       ''Error waiting for device to be active for destroy (): Error retrieving device: 404 Not Found''),
       active_data\<lparr>Id' := []\<rparr>,
       \<lparr>world = 2, calls = [CallGet ''d1'', CallGet []]\<rparr>) \<and>
   reported (resourcePacketDeviceDelete no_backoff
     (scripted_client (Inl not_found) [] (Inl not_found) (Some not_found) None)
     (tracked_data, fresh_remote)) =
     Some (Some (ErrorString
       (''Error waiting for device to be active for destroy (): '' @ Error_text TimeoutError)),
       [])"
proof -
  let ?client = "scripted_client (Inl not_found) [] (Inl not_found) (Some not_found) None"
  let ?conf = "deviceStateConf ''active'' [''queued'', ''provisioning'']"
  let ?refresh = "newDeviceStateRefreshFunc ?client ''state''"
  let ?d1 = "active_data\<lparr>Id' := []\<rparr>"
  let ?r1 = "\<lparr>world = (2::nat), calls = [CallGet ''d1'', CallGet []]\<rparr>"
  have g: "Devices_Get ?client (Id' active_data) (world fresh_remote) = (Inl not_found, 1)"
    by (simp add: scripted_Get Id_examples)
  have tick: "?refresh (active_data, fresh_remote) =
      ((None, [], Some (ErrorString ''Error retrieving device: 404 Not Found'')), ?d1, ?r1)"
    using refresh_get_failed [OF g]
    by (simp add: is_404_not_found GetOk_active scripted_Get Id_examples error_texts)
  have t: "Delay ?conf < Timeout ?conf" by (simp add: deviceStateConf_fields)
  have "poll no_backoff ?conf ?refresh (Delay ?conf) [] (active_data, fresh_remote) =
      Some ((None, Some (ErrorString ''Error retrieving device: 404 Not Found'')), (?d1, ?r1),
            [] @ [Delay ?conf])"
    using t tick by (rule poll_error)
  then have w: "WaitForDeviceAttribute no_backoff ?client active_data ''active''
        [''queued'', ''provisioning''] ''state'' fresh_remote =
      Some ((None, Some (ErrorString ''Error retrieving device: 404 Not Found'')), (?d1, ?r1),
            [] @ [Delay ?conf])"
    by (simp add: WaitForDeviceAttribute_def WaitForState_def)
  have first: "resourcePacketDeviceDelete no_backoff ?client (active_data, fresh_remote) =
     Some (Some (ErrorString
       ''Error waiting for device to be active for destroy (): Error retrieving device: 404 Not Found''),
       ?d1, ?r1)"
    by (simp add: resourcePacketDeviceDelete_def w)
  let ?I = "\<lambda>s. \<not> snd (GetOk (fst s) ''state'') \<and> Id' (fst s) = []"
  let ?d2 = "tracked_data\<lparr>Id' := []\<rparr>"
  let ?r2 = "\<lparr>world = Suc (world fresh_remote),
             calls = calls fresh_remote @ [CallGet (Id' tracked_data)]\<rparr>"
  have n: "\<not> snd (GetOk tracked_data ''state'')" by (simp add: GetOk_tracked)
  have tick0: "?refresh (tracked_data, fresh_remote) = ((None, [], None), ?d2, ?r2)"
    using gone_no_state [OF n] .
  have k: "keeps_waiting ?conf (None, [], None)" by (simp add: keeps_waiting_def)
  have c0: "poll no_backoff ?conf ?refresh (Delay ?conf) [] (tracked_data, fresh_remote) =
        poll no_backoff ?conf ?refresh
          (Delay ?conf + max (MinTimeout ?conf) (no_backoff (length ([]::nat list))))
          ([] @ [Delay ?conf]) (?d2, ?r2)"
    using t tick0 k by (rule poll_continue)
  have "\<exists>s' ts. poll no_backoff ?conf ?refresh
          (Delay ?conf + max (MinTimeout ?conf) (no_backoff (length ([]::nat list))))
          ([] @ [Delay ?conf]) (?d2, ?r2) = Some ((None, Some TimeoutError), s', ts) \<and> ?I s'"
  proof (rule poll_pending [where I = ?I])
    show "0 < MinTimeout ?conf" by (simp add: deviceStateConf_fields)
    show "keeps_waiting ?conf out \<and> ?I s1" if "?I s" "?refresh s = (out, s1)" for s out s1
    proof -
      obtain d r where s: "s = (d, r)" by (cases s)
      have "\<not> snd (GetOk d ''state'')" using that(1) s by simp
      from gone_no_state [OF this] that s show ?thesis
        by (auto simp: keeps_waiting_def GetOk_Id_update)
    qed
    show "?I (?d2, ?r2)" by (simp add: GetOk_Id_update GetOk_tracked)
  qed
  then obtain d3 r3 ts where
    "poll no_backoff ?conf ?refresh
          (Delay ?conf + max (MinTimeout ?conf) (no_backoff (length ([]::nat list))))
          ([] @ [Delay ?conf]) (?d2, ?r2) = Some ((None, Some TimeoutError), (d3, r3), ts)"
    and i3: "Id' d3 = []"
    by auto
  then have w2: "WaitForDeviceAttribute no_backoff ?client tracked_data ''active''
        [''queued'', ''provisioning''] ''state'' fresh_remote =
      Some ((None, Some TimeoutError), (d3, r3), ts)"
    using c0 by (simp add: WaitForDeviceAttribute_def WaitForState_def)
  have second: "reported (resourcePacketDeviceDelete no_backoff ?client (tracked_data, fresh_remote)) =
     Some (Some (ErrorString
       (''Error waiting for device to be active for destroy (): '' @ Error_text TimeoutError)),
       [])"
    by (simp add: resourcePacketDeviceDelete_def w2 reported_def i3)
  show ?thesis
    using first second is_404_not_found by simp
qed

subsection \<open>C4: Read when the Get fails\<close>

text \<open>
  C4. When the \<open>Get\<close> of a Read returns an error whose text contains \<open>404 Not Found\<close>,
  Read sets the local ID to the empty string and returns no error, and the resource data
  is otherwise what it was: no attribute and no connection info is written. For every
  other error of the \<open>Get\<close>, Read returns the error \<open>Error retrieving device: \<close> followed
  by the text of that error, and leaves the resource data as it was. In both cases the
  \<open>Get\<close> is the only call made.
\<close>

theorem C4_read_get_error:
  assumes "Devices_Get client (Id' d) (world r) = (Inl err, w1)"
  shows "resourcePacketDeviceRead client (d, r) =
     (if is_404 err
      then (None, d\<lparr>Id' := []\<rparr>, \<lparr>world = w1, calls = calls r @ [CallGet (Id' d)]\<rparr>)
      else (Some (ErrorString (''Error retrieving device: '' @ Error_text err)), d,
            \<lparr>world = w1, calls = calls r @ [CallGet (Id' d)]\<rparr>))"
  using assms by (simp add: resourcePacketDeviceRead_def do_Get_def SetId_def)

text \<open>An instance with a not-found answer, and one with a server error.\<close>

theorem C4_read_get_error_witness:
  "Devices_Get (scripted_client (Inl not_found) [] (Inl not_found) None None)
     (Id' tracked_data) (world fresh_remote) = (Inl not_found, 1) \<and>
   resourcePacketDeviceRead (scripted_client (Inl not_found) [] (Inl not_found) None None)
     (tracked_data, fresh_remote) =
     (None, tracked_data\<lparr>Id' := []\<rparr>, \<lparr>world = 1, calls = [CallGet ''d1'']\<rparr>) \<and>
   Devices_Get (scripted_client (Inl not_found) [] (Inl server_error) None None)
     (Id' tracked_data) (world fresh_remote) = (Inl server_error, 1) \<and>
   resourcePacketDeviceRead (scripted_client (Inl not_found) [] (Inl server_error) None None)
     (tracked_data, fresh_remote) =
     (Some (ErrorString ''Error retrieving device: 500 Internal Server Error''), tracked_data,
      \<lparr>world = 1, calls = [CallGet ''d1'']\<rparr>)"
proof -
  have h1: "Devices_Get (scripted_client (Inl not_found) [] (Inl not_found) None None)
     (Id' tracked_data) (world fresh_remote) = (Inl not_found, 1)"
    by (simp add: scripted_client_def fresh_remote_def)
  have h2: "Devices_Get (scripted_client (Inl not_found) [] (Inl server_error) None None)
     (Id' tracked_data) (world fresh_remote) = (Inl server_error, 1)"
    by (simp add: scripted_client_def fresh_remote_def)
  have i: "Id' tracked_data = ''d1''" "calls fresh_remote = []"
    by (simp_all add: tracked_data_def fresh_remote_def)
  have t: "Error_text server_error = ''500 Internal Server Error''"
    by (simp add: server_error_def)
  show ?thesis
    using h1 h2 C4_read_get_error [OF h1] C4_read_get_error [OF h2]
    by (simp add: is_404_not_found not_404_server_error i t)
qed

subsection \<open>C5: the ID during Create\<close>

text \<open>
  C5, as amended. When the remote \<open>Create\<close> call succeeds, Create sets the ID of the
  returned device on the resource and then waits, on that resource, for the state
  \<open>active\<close>; the wait always returns. When the wait fails, Create returns the error
  \<open>Error waiting for device (ID) to become ready: \<close> followed by the text of the wait's
  error, and Create itself never rolls the ID back: the ID the resource is left with is
  that of the created device, or it is empty, which happens only when a Read made during
  the wait cleared it after a \<open>Get\<close> reported not-found. Against a remote whose \<open>Get\<close> never
  reports not-found the ID is that of the created device. When the wait succeeds, Create is
  the Read that follows.
\<close>

theorem C5_create_sets_id_before_wait:
  assumes c: "Devices_Create client (create_opts d) (world r) = (Inr dev, w1)"
  shows "\<exists>res err d2 r2 ts.
     WaitForDeviceAttribute backoff client (d\<lparr>Id' := ID dev\<rparr>)
         ''active'' [''queued'', ''provisioning''] ''state''
         \<lparr>world = w1, calls = calls r @ [CallCreate (create_opts d)]\<rparr> =
       Some ((res, err), (d2, r2), ts) \<and>
     resourcePacketDeviceCreate backoff client (d, r) =
       Some (case err of
               Some e \<Rightarrow>
                 (Some (ErrorString (''Error waiting for device ('' @ Id' d2 @
                          '') to become ready: '' @ Error_text e)), d2, r2)
             | None \<Rightarrow> resourcePacketDeviceRead client (d2, r2)) \<and>
     (Id' d2 = ID dev \<or> Id' d2 = []) \<and>
     ((\<forall>i w e. fst (Devices_Get client i w) = Inl e \<longrightarrow> \<not> is_404 e) \<longrightarrow> Id' d2 = ID dev)"
proof -
  let ?r1 = "\<lparr>world = w1, calls = calls r @ [CallCreate (create_opts d)]\<rparr>"
  have "\<exists>res err d2 r2 ts.
     WaitForDeviceAttribute backoff client (d\<lparr>Id' := ID dev\<rparr>)
         ''active'' [''queued'', ''provisioning''] ''state'' ?r1 = Some ((res, err), (d2, r2), ts) \<and>
     (Id' d2 = ID dev \<or> Id' d2 = []) \<and>
     ((\<forall>i w e. fst (Devices_Get client i w) = Inl e \<longrightarrow> \<not> is_404 e) \<longrightarrow> Id' d2 = ID dev)"
    using WaitForDeviceAttribute_Id [of backoff client "d\<lparr>Id' := ID dev\<rparr>" "''active''"
        "[''queued'', ''provisioning'']" "''state''" ?r1]
    by simp
  then obtain res err d2 r2 ts where
    w: "WaitForDeviceAttribute backoff client (d\<lparr>Id' := ID dev\<rparr>)
         ''active'' [''queued'', ''provisioning''] ''state'' ?r1 = Some ((res, err), (d2, r2), ts)"
    and i: "Id' d2 = ID dev \<or> Id' d2 = []"
      "(\<forall>i w e. fst (Devices_Get client i w) = Inl e \<longrightarrow> \<not> is_404 e) \<longrightarrow> Id' d2 = ID dev"
    by blast
  have "resourcePacketDeviceCreate backoff client (d, r) =
       Some (case err of
               Some e \<Rightarrow>
                 (Some (ErrorString (''Error waiting for device ('' @ Id' d2 @
                          '') to become ready: '' @ Error_text e)), d2, r2)
             | None \<Rightarrow> resourcePacketDeviceRead client (d2, r2))"
    using c w by (simp add: resourcePacketDeviceCreate_def do_Create_def SetId_def split: option.splits)
  then show ?thesis using w i by blast
qed

text \<open>
  An instance: the device is created, every \<open>Get\<close> fails with a server error, and
  the resource stays tracked as \<open>d1\<close>.
\<close>

theorem C5_create_sets_id_before_wait_witness:
  "Devices_Create
     (scripted_client (Inr (example_device ''queued'' [])) [] (Inl server_error) None None)
     (create_opts new_data) (world fresh_remote) = (Inr (example_device ''queued'' []), 0) \<and>
   ID (example_device ''queued'' []) = ''d1'' \<and>
   reported (resourcePacketDeviceCreate no_backoff
     (scripted_client (Inr (example_device ''queued'' [])) [] (Inl server_error) None None)
     (new_data, fresh_remote)) =
     Some (Some (ErrorString
       ''Error waiting for device (d1) to become ready: Error retrieving device: 500 Internal Server Error''),
       ''d1'')"
proof -
  let ?client = "scripted_client (Inr (example_device ''queued'' [])) [] (Inl server_error) None None"
  let ?r1 = "\<lparr>world = (0::nat), calls = calls fresh_remote @ [CallCreate (create_opts new_data)]\<rparr>"
  let ?d1 = "new_data\<lparr>Id' := ID (example_device ''queued'' [])\<rparr>"
  have c: "Devices_Create ?client (create_opts new_data) (world fresh_remote) =
             (Inr (example_device ''queued'' []), 0)"
    by (simp add: scripted_Create Id_examples)
  have i: "ID (example_device ''queued'' []) = ''d1''" by (simp add: example_device_def)
  have g: "Devices_Get ?client (Id' ?d1) (world ?r1) = (Inl server_error, 1)"
    by (simp add: scripted_Get)
  have t: "Delay (deviceStateConf ''active'' [''queued'', ''provisioning'']) <
           Timeout (deviceStateConf ''active'' [''queued'', ''provisioning''])"
    by (simp add: deviceStateConf_fields)
  have w: "WaitForDeviceAttribute no_backoff ?client ?d1
         ''active'' [''queued'', ''provisioning''] ''state'' ?r1 =
       Some ((None, Some (ErrorString ''Error retrieving device: 500 Internal Server Error'')),
             (?d1, \<lparr>world = 1, calls = calls ?r1 @ [CallGet (Id' ?d1)]\<rparr>),
             [Delay (deviceStateConf ''active'' [''queued'', ''provisioning''])])"
    unfolding WaitForDeviceAttribute_def WaitForState_def
    using poll_error [OF t, of "newDeviceStateRefreshFunc ?client ''state''" "(?d1, ?r1)"
        None "[]" _ _ no_backoff "[]"] refresh_get_failed [OF g]
    by (simp add: not_404_server_error error_texts)
  have k: "\<forall>i w e. fst (Devices_Get ?client i w) = Inl e \<longrightarrow> \<not> is_404 e"
    by (auto simp: scripted_Get not_404_server_error)
  obtain res err d2 r2 ts where
    w': "WaitForDeviceAttribute no_backoff ?client ?d1
         ''active'' [''queued'', ''provisioning''] ''state'' ?r1 = Some ((res, err), (d2, r2), ts)"
    and cr: "resourcePacketDeviceCreate no_backoff ?client (new_data, fresh_remote) =
       Some (case err of
               Some e \<Rightarrow>
                 (Some (ErrorString (''Error waiting for device ('' @ Id' d2 @
                          '') to become ready: '' @ Error_text e)), d2, r2)
             | None \<Rightarrow> resourcePacketDeviceRead ?client (d2, r2))"
    and kept: "(\<forall>i w e. fst (Devices_Get ?client i w) = Inl e \<longrightarrow> \<not> is_404 e) \<longrightarrow>
               Id' d2 = ID (example_device ''queued'' [])"
    using C5_create_sets_id_before_wait [OF c, of no_backoff] by blast
  have e: "err = Some (ErrorString ''Error retrieving device: 500 Internal Server Error'')"
    using w w' by simp
  have "Id' d2 = ''d1''" using kept k i by simp
  then show ?thesis
    using c i cr by (simp add: e reported_def)
qed

text \<open>
  C5 as stated fails: the device \<open>d1\<close> is created and seen queued by the first tick of the
  wait, then it vanishes; the second tick clears the ID, the wait fails, and Create returns
  its error with the resource tracked by no ID.
\<close>

theorem C5_id_cleared_counterexample:
  "Devices_Create
     (scripted_client (Inr (example_device ''queued'' []))
        [Inr (example_device ''queued'' []), Inr (example_device ''queued'' [])]
        (Inl not_found) None None)
     (create_opts new_data) (world fresh_remote) = (Inr (example_device ''queued'' []), 0) \<and>
   ID (example_device ''queued'' []) = ''d1'' \<and>
   reported (resourcePacketDeviceCreate no_backoff
     (scripted_client (Inr (example_device ''queued'' []))
        [Inr (example_device ''queued'' []), Inr (example_device ''queued'' [])]
        (Inl not_found) None None)
     (new_data, fresh_remote)) =
     Some (Some (ErrorString
       ''Error waiting for device () to become ready: Error retrieving device: 404 Not Found''),
       [])"
proof -
  let ?q = "example_device ''queued'' []"
  let ?client = "scripted_client (Inr ?q) [Inr ?q, Inr ?q] (Inl not_found) None None"
  let ?conf = "deviceStateConf ''active'' [''queued'', ''provisioning'']"
  let ?refresh = "newDeviceStateRefreshFunc ?client ''state''"
  let ?d1 = "SetId new_data (ID ?q)"
  let ?r1 = "\<lparr>world = (0::nat), calls = calls fresh_remote @ [CallCreate (create_opts new_data)]\<rparr>"
  let ?d2 = "populate ?q ?d1"
  let ?r2 = "\<lparr>world = (2::nat), calls = calls ?r1 @ [CallGet ''d1'', CallGet ''d1'']\<rparr>"
  let ?d3 = "?d2\<lparr>Id' := []\<rparr>"
  let ?r3 = "\<lparr>world = (4::nat), calls = calls ?r2 @ [CallGet ''d1'', CallGet []]\<rparr>"
  have c: "Devices_Create ?client (create_opts new_data) (world fresh_remote) = (Inr ?q, 0)"
    by (simp add: scripted_Create Id_examples)
  have q: "ID ?q = ''d1''" "State ?q = ''queued''" "State ?q \<noteq> []"
    by (simp_all add: example_device_def)
  have i1: "Id' ?d1 = ''d1''" by (simp add: SetId_def q)
  have i2: "Id' ?d2 = ''d1''" by (simp add: populate_frame i1)
  have g1: "Devices_Get ?client (Id' ?d1) (world ?r1) = (Inr ?q, 1)"
    by (simp add: scripted_Get)
  have tick1: "?refresh (?d1, ?r1) = ((Some ?q, ''queued'', None), ?d2, ?r2)"
    using refresh_found [OF g1 q(3)] by (simp add: scripted_Get i1 q(2))
  have g2: "Devices_Get ?client (Id' ?d2) (world ?r2) = (Inl not_found, 3)"
    by (simp add: scripted_Get)
  have tick2: "?refresh (?d2, ?r2) =
      ((None, [], Some (ErrorString ''Error retrieving device: 404 Not Found'')), ?d3, ?r3)"
    using refresh_get_failed [OF g2]
    by (simp add: is_404_not_found GetOk_populate_state q scripted_Get populate_frame SetId_def
          error_texts)
  have k1: "keeps_waiting ?conf (Some ?q, ''queued'', None)"
    by (simp add: keeps_waiting_def deviceStateConf_fields)
  have t1: "Delay ?conf < Timeout ?conf"
    and t2: "Delay ?conf + max (MinTimeout ?conf) (no_backoff (length ([]::nat list))) < Timeout ?conf"
    by (simp_all add: deviceStateConf_fields no_backoff_def)
  have "poll no_backoff ?conf ?refresh (Delay ?conf) [] (?d1, ?r1) =
        poll no_backoff ?conf ?refresh
          (Delay ?conf + max (MinTimeout ?conf) (no_backoff (length ([]::nat list))))
          ([] @ [Delay ?conf]) (?d2, ?r2)"
    using t1 tick1 k1 by (rule poll_continue)
  also have "\<dots> = Some ((None, Some (ErrorString ''Error retrieving device: 404 Not Found'')),
       (?d3, ?r3),
       ([] @ [Delay ?conf]) @
         [Delay ?conf + max (MinTimeout ?conf) (no_backoff (length ([]::nat list)))])"
    using t2 tick2 by (rule poll_error)
  finally have w: "WaitForDeviceAttribute no_backoff ?client ?d1 ''active''
        [''queued'', ''provisioning''] ''state'' ?r1 =
      Some ((None, Some (ErrorString ''Error retrieving device: 404 Not Found'')), (?d3, ?r3),
        ([] @ [Delay ?conf]) @
         [Delay ?conf + max (MinTimeout ?conf) (no_backoff (length ([]::nat list)))])"
    by (simp add: WaitForDeviceAttribute_def WaitForState_def)
  have "resourcePacketDeviceCreate no_backoff ?client (new_data, fresh_remote) =
     Some (Some (ErrorString
       ''Error waiting for device () to become ready: Error retrieving device: 404 Not Found''),
       ?d3, ?r3)"
    using c by (simp add: resourcePacketDeviceCreate_def do_Create_def w)
  then show ?thesis
    using c q(1) by (simp add: reported_def)
qed

subsection \<open>C6: Update locks or unlocks, then reads\<close>

text \<open>
  C6. With \<open>lres\<close> and \<open>ures\<close> the answers the remote would give to \<open>Lock\<close> and to
  \<open>Unlock\<close>: among the calls an Update makes, \<open>Lock\<close> occurs once when the locked flag
  changed to true and not at all otherwise, and \<open>Unlock\<close> occurs once when it changed to
  false and not at all otherwise, so neither is called when the flag did not change. When
  the one call made fails, the Update returns the error \<open>Error locking device\<close> (or
  \<open>unlocking\<close>) with the ID and the text of the failure, the resource data is unchanged
  and no other call is made. In every other case the Update is the Read that follows: its
  result is that of Read, and the \<open>Get\<close> of that Read is its last call.
\<close>

theorem C6_update_lock_unlock:
  assumes l: "Devices_Lock client (Id' d) (world r) = (lres, wl)"
      and u: "Devices_Unlock client (Id' d) (world r) = (ures, wu)"
  shows "length (filter is_Lock
           (calls_made r (remote_after (resourcePacketDeviceUpdate client (d, r))))) =
           (if HasChange d ''locked'' \<and> as_bool (Get d ''locked'') then 1 else 0) \<and>
         length (filter is_Unlock
           (calls_made r (remote_after (resourcePacketDeviceUpdate client (d, r))))) =
           (if HasChange d ''locked'' \<and> \<not> as_bool (Get d ''locked'') then 1 else 0) \<and>
         resourcePacketDeviceUpdate client (d, r) =
           (if HasChange d ''locked'' then
              (if as_bool (Get d ''locked'') then
                 (case lres of
                    Some err \<Rightarrow>
                      (Some (ErrorString (''Error locking device ('' @ Id' d @ ''): '' @
                               Error_text err)),
                       d, \<lparr>world = wl, calls = calls r @ [CallLock (Id' d)]\<rparr>)
                  | None \<Rightarrow>
                      resourcePacketDeviceRead client
                        (d, \<lparr>world = wl, calls = calls r @ [CallLock (Id' d)]\<rparr>))
               else
                 (case ures of
                    Some err \<Rightarrow>
                      (Some (ErrorString (''Error unlocking device ('' @ Id' d @ ''): '' @
                               Error_text err)),
                       d, \<lparr>world = wu, calls = calls r @ [CallUnlock (Id' d)]\<rparr>)
                  | None \<Rightarrow>
                      resourcePacketDeviceRead client
                        (d, \<lparr>world = wu, calls = calls r @ [CallUnlock (Id' d)]\<rparr>)))
            else resourcePacketDeviceRead client (d, r)) \<and>
         calls_made r (remote_after (resourcePacketDeviceUpdate client (d, r))) =
           (if HasChange d ''locked'' then
              (if as_bool (Get d ''locked'')
               then CallLock (Id' d) # (if lres = None then [CallGet (Id' d)] else [])
               else CallUnlock (Id' d) # (if ures = None then [CallGet (Id' d)] else []))
            else [CallGet (Id' d)])"
proof -
  let ?made = "calls_made r (remote_after (resourcePacketDeviceUpdate client (d, r)))"
  have c: "?made =
           (if HasChange d ''locked'' then
              (if as_bool (Get d ''locked'')
               then CallLock (Id' d) # (if lres = None then [CallGet (Id' d)] else [])
               else CallUnlock (Id' d) # (if ures = None then [CallGet (Id' d)] else []))
            else [CallGet (Id' d)])"
    using Update_calls [OF l u] .
  have "length (filter is_Lock ?made) =
          (if HasChange d ''locked'' \<and> as_bool (Get d ''locked'') then 1 else 0)"
    unfolding c by simp
  moreover have "length (filter is_Unlock ?made) =
          (if HasChange d ''locked'' \<and> \<not> as_bool (Get d ''locked'') then 1 else 0)"
    unfolding c by simp
  ultimately show ?thesis
    using c Update_unfold [OF l u] by simp
qed

text \<open>
  Instances: a change to true, a change to false, no change, and a \<open>Lock\<close> that fails.
\<close>

theorem C6_update_lock_unlock_witness:
  "calls_made fresh_remote (remote_after (resourcePacketDeviceUpdate
      (scripted_client (Inl not_found) [] (Inr (example_device ''active'' [])) None None)
      (locking_data, fresh_remote))) = [CallLock ''d1'', CallGet ''d1''] \<and>
   calls_made fresh_remote (remote_after (resourcePacketDeviceUpdate
      (scripted_client (Inl not_found) [] (Inr (example_device ''active'' [])) None None)
      (unlocking_data, fresh_remote))) = [CallUnlock ''d1'', CallGet ''d1''] \<and>
   calls_made fresh_remote (remote_after (resourcePacketDeviceUpdate
      (scripted_client (Inl not_found) [] (Inr (example_device ''active'' [])) None None)
      (tracked_data, fresh_remote))) = [CallGet ''d1''] \<and>
   resourcePacketDeviceUpdate
      (scripted_client (Inl not_found) [] (Inr (example_device ''active'' [])) None
         (Some server_error))
      (locking_data, fresh_remote) =
     (Some (ErrorString ''Error locking device (d1): 500 Internal Server Error''),
      locking_data, \<lparr>world = 0, calls = [CallLock ''d1'']\<rparr>)"
proof -
  let ?ok = "scripted_client (Inl not_found) [] (Inr (example_device ''active'' [])) None None"
  let ?bad = "scripted_client (Inl not_found) [] (Inr (example_device ''active'' [])) None
         (Some server_error)"
  have t: "Error_text server_error = ''500 Internal Server Error''"
    by (simp add: server_error_def)
  have a: "calls_made fresh_remote (remote_after (resourcePacketDeviceUpdate ?ok
             (locking_data, fresh_remote))) = [CallLock ''d1'', CallGet ''d1'']"
    using C6_update_lock_unlock [of ?ok locking_data fresh_remote None 0 None 0,
        THEN conjunct2, THEN conjunct2, THEN conjunct2]
    by (simp add: scripted_Lock locking_facts Id_examples)
  have b: "calls_made fresh_remote (remote_after (resourcePacketDeviceUpdate ?ok
             (unlocking_data, fresh_remote))) = [CallUnlock ''d1'', CallGet ''d1'']"
    using C6_update_lock_unlock [of ?ok unlocking_data fresh_remote None 0 None 0,
        THEN conjunct2, THEN conjunct2, THEN conjunct2]
    by (simp add: scripted_Lock unlocking_facts Id_examples)
  have c: "calls_made fresh_remote (remote_after (resourcePacketDeviceUpdate ?ok
             (tracked_data, fresh_remote))) = [CallGet ''d1'']"
    using C6_update_lock_unlock [of ?ok tracked_data fresh_remote None 0 None 0,
        THEN conjunct2, THEN conjunct2, THEN conjunct2]
    by (simp add: scripted_Lock tracked_unchanged Id_examples)
  have d: "resourcePacketDeviceUpdate ?bad (locking_data, fresh_remote) =
     (Some (ErrorString ''Error locking device (d1): 500 Internal Server Error''),
      locking_data, \<lparr>world = 0, calls = [CallLock ''d1'']\<rparr>)"
    using C6_update_lock_unlock [of ?bad locking_data fresh_remote "Some server_error" 0
        "Some server_error" 0,
        THEN conjunct2, THEN conjunct2, THEN conjunct1]
    by (simp add: scripted_Lock locking_facts Id_examples t)
  show ?thesis using a b c d by simp
qed

subsection \<open>C7: a wait that stays pending\<close>

text \<open>
  C7, as amended. When the minimum interval is positive and every refresh result of a
  wait is a pending value (or no value) at each poll that starts within the timeout,
  whatever the refresh function would return later, the wait returns the timeout error,
  which is distinct from every other error. Its polls are made at the times of the
  schedule: the first when the initial delay has passed, each later one after the
  interval of its round, which is never below the minimum interval. The refresh function
  is called \<open>n\<close> times, where \<open>n\<close> is the first round whose time is not before the timeout:
  every poll starts within the timeout and the timeout is used up when the error is
  returned. So \<open>n\<close> is at least \<open>(Timeout - Delay) / U\<close> when no adaptive proposal used
  exceeds \<open>B\<close> and \<open>U\<close> is the larger of \<open>B\<close> and the minimum interval, and
  \<open>n * MinTimeout < (Timeout - Delay) + MinTimeout\<close>. Every device wait of this code is
  configured with a timeout of 60 minutes, an initial delay of 10 seconds and a minimum
  interval of 3 seconds.
\<close>

theorem C7_pending_until_timeout:
  assumes pos: "0 < MinTimeout conf"
    and pending: "\<And>k. poll_time backoff conf k < Timeout conf \<Longrightarrow>
                   keeps_waiting conf (fst (refresh (state_at refresh s k)))"
  shows "(\<exists>n. WaitForState backoff conf refresh s =
              Some ((None, Some TimeoutError), state_at refresh s n,
                    map (poll_time backoff conf) [0..<n]) \<and>
            (\<forall>k<n. poll_time backoff conf k < Timeout conf) \<and>
            Timeout conf \<le> poll_time backoff conf n \<and>
            timed conf (Delay conf) (map (poll_time backoff conf) [0..<n]) \<and>
            ((\<forall>k<n. backoff k \<le> B) \<longrightarrow>
               Timeout conf \<le> Delay conf + n * max (MinTimeout conf) B)) \<and>
         WaitForDeviceAttribute backoff client d target pending attribute r =
           WaitForState backoff
             \<lparr>Pending = pending, Target = target,
              Timeout = 60 * Minute, Delay = 10 * Second, MinTimeout = 3 * Second\<rparr>
             (newDeviceStateRefreshFunc client attribute) (d, r)"
proof -
  obtain n where run: "poll backoff conf refresh (poll_time backoff conf 0)
             (map (poll_time backoff conf) [0..<0]) (state_at refresh s 0) =
             Some ((None, Some TimeoutError), state_at refresh s n,
                   map (poll_time backoff conf) [0..<n])"
    and before: "\<forall>k. 0 \<le> k \<and> k < n \<longrightarrow> poll_time backoff conf k < Timeout conf"
    and used: "Timeout conf \<le> poll_time backoff conf n"
    using poll_schedule [of conf backoff refresh s 0] pos pending by blast
  have w: "WaitForState backoff conf refresh s =
             Some ((None, Some TimeoutError), state_at refresh s n,
                   map (poll_time backoff conf) [0..<n])"
    using run by (simp add: WaitForState_def)
  have t: "timed conf (Delay conf) (map (poll_time backoff conf) [0..<n])"
    using poll_timed [OF pos, of backoff refresh "Delay conf" s] w
    by (simp add: WaitForState_def)
  have lower: "Timeout conf \<le> Delay conf + n * max (MinTimeout conf) B"
    if "\<forall>k<n. backoff k \<le> B"
    using used poll_time_upper [OF that, of conf] by simp
  have "\<exists>n. WaitForState backoff conf refresh s =
              Some ((None, Some TimeoutError), state_at refresh s n,
                    map (poll_time backoff conf) [0..<n]) \<and>
            (\<forall>k<n. poll_time backoff conf k < Timeout conf) \<and>
            Timeout conf \<le> poll_time backoff conf n \<and>
            timed conf (Delay conf) (map (poll_time backoff conf) [0..<n]) \<and>
            ((\<forall>k<n. backoff k \<le> B) \<longrightarrow>
               Timeout conf \<le> Delay conf + n * max (MinTimeout conf) B)"
    using w before used t lower by (intro exI [of _ n]) simp
  then show ?thesis
    by (simp add: WaitForDeviceAttribute_def deviceStateConf_def)
qed

text \<open>
  An instance: a device that is queued at every poll within the timeout and active
  afterwards, waited for with the configuration of the code and intervals at their
  minimum. The wait times out after exactly 1197 refresh calls; the next refresh call would
  have seen the device active.
\<close>

theorem C7_pending_until_timeout_witness:
  "0 < MinTimeout (deviceStateConf ''active'' [''queued'', ''provisioning'']) \<and>
   wait_error (WaitForDeviceAttribute no_backoff slow_client tracked_data
      ''active'' [''queued'', ''provisioning''] ''state'' fresh_remote) =
     Some (Some TimeoutError) \<and>
   length (wait_polls (WaitForDeviceAttribute no_backoff slow_client tracked_data
      ''active'' [''queued'', ''provisioning''] ''state'' fresh_remote)) = 1197 \<and>
   timed (deviceStateConf ''active'' [''queued'', ''provisioning'']) (10 * Second)
     (wait_polls (WaitForDeviceAttribute no_backoff slow_client tracked_data
        ''active'' [''queued'', ''provisioning''] ''state'' fresh_remote)) \<and>
   fst (newDeviceStateRefreshFunc slow_client ''state''
          (state_at (newDeviceStateRefreshFunc slow_client ''state'')
             (tracked_data, fresh_remote) 1197)) =
     (Some (example_device ''active'' []), ''active'', None)"
proof -
  let ?conf = "deviceStateConf ''active'' [''queued'', ''provisioning'']"
  let ?refresh = "newDeviceStateRefreshFunc slow_client ''state''"
  let ?s = "(tracked_data, fresh_remote)"
  let ?W = "WaitForDeviceAttribute no_backoff slow_client tracked_data ''active''
              [''queued'', ''provisioning''] ''state'' fresh_remote"
  have pos: "0 < MinTimeout ?conf" by (simp add: deviceStateConf_fields)
  have pt: "poll_time no_backoff ?conf k = 10000000000 + k * 3000000000" for k
    by (simp add: poll_time_no_backoff deviceStateConf_fields)
  have pending: "keeps_waiting ?conf (fst (?refresh (state_at ?refresh ?s k)))"
    if "poll_time no_backoff ?conf k < Timeout ?conf" for k
  proof -
    have k: "k < 1197" using that by (simp add: pt deviceStateConf_fields)
    obtain d r where s: "state_at ?refresh ?s k = (d, r)" by (cases "state_at ?refresh ?s k")
    have "world r = 2 * k" using slow_world [of k] k s by simp
    then have "Suc (world r) < 2394" using k by simp
    from slow_queued [OF this, of d] show ?thesis
      by (simp add: s keeps_waiting_def deviceStateConf_fields)
  qed
  have main: "(\<exists>n. WaitForState no_backoff ?conf ?refresh ?s =
              Some ((None, Some TimeoutError), state_at ?refresh ?s n,
                    map (poll_time no_backoff ?conf) [0..<n]) \<and>
            (\<forall>k<n. poll_time no_backoff ?conf k < Timeout ?conf) \<and>
            Timeout ?conf \<le> poll_time no_backoff ?conf n \<and>
            timed ?conf (Delay ?conf) (map (poll_time no_backoff ?conf) [0..<n]) \<and>
            ((\<forall>k<n. no_backoff k \<le> 0) \<longrightarrow>
               Timeout ?conf \<le> Delay ?conf + n * max (MinTimeout ?conf) 0)) \<and>
         ?W = WaitForState no_backoff
             \<lparr>Pending = [''queued'', ''provisioning''], Target = ''active'',
              Timeout = 60 * Minute, Delay = 10 * Second, MinTimeout = 3 * Second\<rparr>
             ?refresh ?s"
  proof (rule C7_pending_until_timeout)
    show "0 < MinTimeout ?conf" by (rule pos)
    show "keeps_waiting ?conf (fst (?refresh (state_at ?refresh ?s k)))"
      if "poll_time no_backoff ?conf k < Timeout ?conf" for k
      using that by (rule pending)
  qed
  then obtain n where
    w: "WaitForState no_backoff ?conf ?refresh ?s =
              Some ((None, Some TimeoutError), state_at ?refresh ?s n,
                    map (poll_time no_backoff ?conf) [0..<n])"
    and before: "\<forall>k<n. poll_time no_backoff ?conf k < Timeout ?conf"
    and t: "timed ?conf (Delay ?conf) (map (poll_time no_backoff ?conf) [0..<n])"
    and lower: "(\<forall>k<n. no_backoff k \<le> 0) \<longrightarrow>
               Timeout ?conf \<le> Delay ?conf + n * max (MinTimeout ?conf) 0"
    by blast
  have "3600000000000 \<le> 10000000000 + n * (3000000000::nat)"
    using lower by (simp add: no_backoff_def deviceStateConf_fields)
  then have ge: "1197 \<le> n" by simp
  have "\<not> 1197 < n"
  proof
    assume "1197 < n"
    then have "poll_time no_backoff ?conf 1197 < Timeout ?conf" using before by blast
    then show False by (simp add: pt deviceStateConf_fields)
  qed
  then have n: "n = 1197" using ge by simp
  have W: "?W = Some ((None, Some TimeoutError), state_at ?refresh ?s n,
                    map (poll_time no_backoff ?conf) [0..<n])"
    using w by (simp add: WaitForDeviceAttribute_def)
  obtain d r where s: "state_at ?refresh ?s 1197 = (d, r)"
    by (cases "state_at ?refresh ?s 1197")
  have "world r = 2394" using slow_world [of 1197] s by simp
  then have "2394 \<le> world r" by simp
  from slow_active [OF this, of d]
  have after: "fst (?refresh (state_at ?refresh ?s 1197)) =
     (Some (example_device ''active'' []), ''active'', None)"
    by (simp add: s)
  have d: "Delay ?conf = 10 * Second" by (simp add: deviceStateConf_def)
  show ?thesis
    using pos t after unfolding W wait_error_def wait_polls_def d n by simp
qed

text \<open>
  C7 as stated fails: for a device that stays queued for ever, waited for with the
  configuration of the code and intervals at their minimum, the wait times out; 60 minutes
  divided by 3 seconds is 1200 and the refresh function is called fewer than 1200 times.
\<close>

theorem C7_call_count_counterexample:
  "Timeout (deviceStateConf ''active'' [''queued'', ''provisioning'']) div
     MinTimeout (deviceStateConf ''active'' [''queued'', ''provisioning'']) = 1200 \<and>
   wait_error (WaitForDeviceAttribute no_backoff
      (scripted_client (Inl not_found) [] (Inr (example_device ''queued'' [])) None None)
      tracked_data ''active'' [''queued'', ''provisioning''] ''state'' fresh_remote) =
     Some (Some TimeoutError) \<and>
   length (wait_polls (WaitForDeviceAttribute no_backoff
        (scripted_client (Inl not_found) [] (Inr (example_device ''queued'' [])) None None)
        tracked_data ''active'' [''queued'', ''provisioning''] ''state'' fresh_remote)) < 1200"
proof -
  let ?client = "scripted_client (Inl not_found) [] (Inr (example_device ''queued'' [])) None None"
  let ?conf = "deviceStateConf ''active'' [''queued'', ''provisioning'']"
  let ?refresh = "newDeviceStateRefreshFunc ?client ''state''"
  let ?W = "WaitForDeviceAttribute no_backoff ?client tracked_data ''active''
              [''queued'', ''provisioning''] ''state'' fresh_remote"
  have pos: "0 < MinTimeout ?conf" by (simp add: deviceStateConf_fields)
  have step: "keeps_waiting ?conf out \<and> True" if "?refresh s = (out, s1)" for s out s1
  proof -
    have "out = (Some (example_device ''queued'' []), ''queued'', None)"
      using that by (cases s) (simp add: always_queued)
    then show ?thesis
      by (simp add: keeps_waiting_def deviceStateConf_fields)
  qed
  have "\<exists>s' ts. WaitForState no_backoff ?conf ?refresh (tracked_data, fresh_remote) =
            Some ((None, Some TimeoutError), s', ts) \<and> timed ?conf (Delay ?conf) ts"
  proof (rule WaitForState_pending [where I = "\<lambda>s. True"])
    show "0 < MinTimeout ?conf" by (rule pos)
    show "keeps_waiting ?conf out \<and> True" if "?refresh s = (out, s1)" for s out s1
      using that by (rule step)
    show True ..
  qed
  then obtain s' ts where w: "WaitForState no_backoff ?conf ?refresh (tracked_data, fresh_remote) =
        Some ((None, Some TimeoutError), s', ts)" and t: "timed ?conf (Delay ?conf) ts"
    by blast
  have W: "?W = Some ((None, Some TimeoutError), s', ts)"
    using w by (simp add: WaitForDeviceAttribute_def)
  have "length ts * 3000000000 < 3590000000000 + (3000000000::nat)"
    using t by (simp add: timed_def deviceStateConf_fields)
  then have n: "length ts < 1200" by simp
  show ?thesis
    using n by (simp add: W wait_error_def wait_polls_def deviceStateConf_fields)
qed

subsection \<open>C8: an unexpected value ends the wait\<close>

text \<open>
  C8. At any tick of a wait that is within its timeout budget, if the refresh call returns
  a snapshot with an observed value that is neither the target nor in the pending set, the
  wait returns at once with the error that carries this value: the state it returns is the
  one this refresh call left, and this poll is the last one made. Only the result
  of this one refresh call is assumed, so the outcome is the same whatever later refresh
  calls would have returned.
\<close>

theorem C8_unexpected_state_aborts:
  assumes "elapsed < Timeout conf"
    and "refresh s = ((Some snapshot, st, None), s1)"
    and "st \<noteq> Target conf" and "st \<notin> set (Pending conf)"
  shows "poll backoff conf refresh elapsed polled s =
           Some ((None, Some (UnexpectedStateError st)), s1, polled @ [elapsed])"
  using assms by (subst poll.simps) simp

theorem C8_unexpected_state_aborts_witness:
  "10 * Second < Timeout (deviceStateConf ''active'' [''queued'', ''provisioning'']) \<and>
   newDeviceStateRefreshFunc
     (scripted_client (Inl not_found) [Inr (example_device ''failed'' [])]
        (Inr (example_device ''active'' [])) None None) ''state'' (tracked_data, fresh_remote) =
     ((Some (example_device ''active'' []), ''failed'', None),
      populate (example_device ''failed'' []) tracked_data,
      \<lparr>world = 2, calls = [CallGet ''d1'', CallGet ''d1'']\<rparr>) \<and>
   ''failed'' \<noteq> Target (deviceStateConf ''active'' [''queued'', ''provisioning'']) \<and>
   ''failed'' \<notin> set (Pending (deviceStateConf ''active'' [''queued'', ''provisioning''])) \<and>
   WaitForDeviceAttribute no_backoff
     (scripted_client (Inl not_found) [Inr (example_device ''failed'' [])]
        (Inr (example_device ''active'' [])) None None)
     tracked_data ''active'' [''queued'', ''provisioning''] ''state'' fresh_remote =
     Some ((None, Some (UnexpectedStateError ''failed'')),
           (populate (example_device ''failed'' []) tracked_data,
            \<lparr>world = 2, calls = [CallGet ''d1'', CallGet ''d1'']\<rparr>),
           [10 * Second])"
proof -
  let ?client = "scripted_client (Inl not_found) [Inr (example_device ''failed'' [])]
        (Inr (example_device ''active'' [])) None None"
  let ?conf = "deviceStateConf ''active'' [''queued'', ''provisioning'']"
  have g: "Devices_Get ?client (Id' tracked_data) (world fresh_remote) =
             (Inr (example_device ''failed'' []), 1)"
    by (simp add: scripted_client_def fresh_remote_def)
  have st: "State (example_device ''failed'' []) = ''failed''"
    by (simp add: example_device_def)
  have g2: "Devices_Get ?client ''d1'' (Suc 0) = (Inr (example_device ''active'' []), 2)"
    by (simp add: scripted_client_def)
  have i: "Id' tracked_data = ''d1''" "calls fresh_remote = []"
    by (simp_all add: tracked_data_def fresh_remote_def)
  have r: "newDeviceStateRefreshFunc ?client ''state'' (tracked_data, fresh_remote) =
     ((Some (example_device ''active'' []), ''failed'', None),
      populate (example_device ''failed'' []) tracked_data,
      \<lparr>world = 2, calls = [CallGet ''d1'', CallGet ''d1'']\<rparr>)"
    using refresh_found [OF g] by (simp add: st g2 i)
  have t: "10 * Second < Timeout ?conf"
    by (simp add: deviceStateConf_def Minute_def Second_def)
  have n1: "''failed'' \<noteq> Target ?conf" and n2: "''failed'' \<notin> set (Pending ?conf)"
    by (simp_all add: deviceStateConf_def)
  have d: "Delay ?conf = 10 * Second" by (simp add: deviceStateConf_def)
  show ?thesis
    using C8_unexpected_state_aborts [of "10 * Second" ?conf "newDeviceStateRefreshFunc ?client ''state''"
        "(tracked_data, fresh_remote)" _ "''failed''" _ no_backoff "[]", OF t r n1 n2] t r n1 n2
    by (simp add: WaitForDeviceAttribute_def WaitForState_def d)
qed

subsection \<open>C9: what a refresh tick does to the resource data\<close>

text \<open>
  C9, as amended. The wait keeps no state of its own, but a refresh tick is not a pure
  observation: it runs a full Read on the locally tracked resource. On a tick whose first
  \<open>Get\<close> returns a device, the resource data becomes the one Read populates from that
  device: the ID is kept, \<open>os\<close>, \<open>hostname\<close>, \<open>facility\<close>, \<open>plan\<close>, \<open>state\<close> and
  \<open>locked\<close> take the device's values, the three address attributes take the last address
  of their class, and the connection info is set anew. On a tick whose first \<open>Get\<close>
  reports not-found only the ID changes, to the empty string; on a tick whose first \<open>Get\<close>
  fails otherwise the resource data is unchanged.
\<close>

theorem C9_refresh_runs_read:
  "data_after (newDeviceStateRefreshFunc client attribute (d, r)) =
     (case fst (Devices_Get client (Id' d) (world r)) of
        Inl err \<Rightarrow> if is_404 err then d\<lparr>Id' := []\<rparr> else d
      | Inr dev \<Rightarrow> populate dev d) \<and>
   Id' (populate dev' d) = Id' d \<and>
   Get (populate dev' d) ''os'' = VString (OS_Slug dev') \<and>
   Get (populate dev' d) ''hostname'' = VString (Hostname dev') \<and>
   Get (populate dev' d) ''facility'' = VString (Facility_Code dev') \<and>
   Get (populate dev' d) ''plan'' = VString (Plan_Slug dev') \<and>
   Get (populate dev' d) ''state'' = VString (State dev') \<and>
   Get (populate dev' d) ''locked'' = VBool (Locked dev') \<and>
   Get (populate dev' d) ''ipv4_address'' =
     (case last_address public_v4 (Network dev') of
        Some a \<Rightarrow> VString a | None \<Rightarrow> Get d ''ipv4_address'') \<and>
   Get (populate dev' d) ''ipv4_address_private'' =
     (case last_address private_v4 (Network dev') of
        Some a \<Rightarrow> VString a | None \<Rightarrow> Get d ''ipv4_address_private'') \<and>
   Get (populate dev' d) ''ipv6_address'' =
     (case last_address public_v6 (Network dev') of
        Some a \<Rightarrow> VString a | None \<Rightarrow> Get d ''ipv6_address'') \<and>
   ConnInfo (populate dev' d) =
     [''type'' \<mapsto> ''ssh'',
      ''host'' \<mapsto> (case last_address public_v4 (Network dev') of Some a \<Rightarrow> a | None \<Rightarrow> [])]"
  using Get_populate_fields [of dev' d] Get_populate_addresses [of dev' d]
  by (simp add: refresh_data Read_data populate_frame populate_ConnInfo)

text \<open>An instance: a tick that fetches an active device with four addresses.\<close>

theorem C9_refresh_runs_read_witness:
  "data_after (newDeviceStateRefreshFunc
      (scripted_client (Inl not_found) [] (Inr (example_device ''active'' mixed_network)) None None)
      ''state'' (tracked_data, fresh_remote)) =
     populate (example_device ''active'' mixed_network) tracked_data \<and>
   Get (populate (example_device ''active'' mixed_network) tracked_data) ''hostname'' = VString ''web'' \<and>
   Get (populate (example_device ''active'' mixed_network) tracked_data) ''state'' = VString ''active'' \<and>
   Get (populate (example_device ''active'' mixed_network) tracked_data) ''ipv4_address'' =
     VString ''147.1.2.3'' \<and>
   ConnInfo (populate (example_device ''active'' mixed_network) tracked_data) =
     [''type'' \<mapsto> ''ssh'', ''host'' \<mapsto> ''147.1.2.3'']"
proof -
  have l: "last_address public_v4 (Network (example_device ''active'' mixed_network)) =
             Some ''147.1.2.3''"
    by (simp add: last_address_def mixed_network_def public_v4_def example_device_def)
  have f: "Hostname (example_device ''active'' mixed_network) = ''web''"
    "State (example_device ''active'' mixed_network) = ''active''"
    by (simp_all add: example_device_def)
  show ?thesis
    using C9_refresh_runs_read [of "scripted_client (Inl not_found) []
        (Inr (example_device ''active'' mixed_network)) None None" "''state''"
        tracked_data fresh_remote "example_device ''active'' mixed_network"]
    by (simp add: scripted_Get Id_examples l f)
qed

text \<open>
  C9 as stated fails: on a resource with no local state and no connection info, one
  refresh tick that fetches an active device leaves the state \<open>active\<close> and the
  connection host 147.1.2.3 in the resource data.
\<close>

theorem C9_refresh_changes_data_counterexample:
  "Get tracked_data ''state'' = VString [] \<and>
   ConnInfo tracked_data ''host'' = None \<and>
   Get (data_after (newDeviceStateRefreshFunc
      (scripted_client (Inl not_found) [] (Inr (example_device ''active'' mixed_network)) None None)
      ''state'' (tracked_data, fresh_remote))) ''state'' = VString ''active'' \<and>
   ConnInfo (data_after (newDeviceStateRefreshFunc
      (scripted_client (Inl not_found) [] (Inr (example_device ''active'' mixed_network)) None None)
      ''state'' (tracked_data, fresh_remote))) ''host'' = Some ''147.1.2.3''"
proof -
  have l: "last_address public_v4 (Network (example_device ''active'' mixed_network)) =
             Some ''147.1.2.3''"
    by (simp add: last_address_def mixed_network_def public_v4_def example_device_def)
  have f: "State (example_device ''active'' mixed_network) = ''active''"
    by (simp add: example_device_def)
  have t: "Get tracked_data ''state'' = VString []" "ConnInfo tracked_data ''host'' = None"
    by (simp_all add: Get_def lookup_def tracked_data_def zero_val_def)
  show ?thesis
    using Get_populate_fields [of "example_device ''active'' mixed_network" tracked_data]
    by (simp add: refresh_data Read_data scripted_Get Id_examples populate_ConnInfo l f t)
qed

subsection \<open>C10: two fetches per tick\<close>

text \<open>
  C10, as amended. A refresh tick for the attribute \<open>state\<close>, by the outcome of its first
  \<open>Get\<close> (the one of the embedded Read). When it returns a device with a non-empty state, a
  second \<open>Get\<close> is made for the same ID on the remote as the first one left it: the value
  handed to the poller is the state of the device of the first \<open>Get\<close>, the snapshot is the
  device of the second one, which may be in another state, and when the second \<open>Get\<close>
  fails the tick returns its error, wrapped, although the first fetch succeeded and has
  been written to the resource data. The attribute is also determinable when the first
  \<open>Get\<close> reports not-found and a state is known locally: then the value handed over is
  that stale local state, not one from the first fetch, and the second \<open>Get\<close> is made with
  the empty ID. In the other cases (a device with an empty state, not-found with no local
  state, another error) the device is fetched once.
\<close>

theorem C10_fetches_per_tick:
  assumes g: "Devices_Get client (Id' d) (world r) = (first, w1)"
  shows "newDeviceStateRefreshFunc client ''state'' (d, r) =
     (case first of
        Inr dev1 \<Rightarrow>
          if State dev1 = [] then
            ((None, [], None), populate dev1 d,
             \<lparr>world = w1, calls = calls r @ [CallGet (Id' d)]\<rparr>)
          else
            (case Devices_Get client (Id' d) w1 of
               (Inl err, w2) \<Rightarrow>
                 ((None, [], Some (ErrorString (''Error retrieving device: '' @ Error_text err))),
                  populate dev1 d,
                  \<lparr>world = w2, calls = calls r @ [CallGet (Id' d), CallGet (Id' d)]\<rparr>)
             | (Inr dev2, w2) \<Rightarrow>
                 ((Some dev2, State dev1, None), populate dev1 d,
                  \<lparr>world = w2, calls = calls r @ [CallGet (Id' d), CallGet (Id' d)]\<rparr>))
      | Inl err1 \<Rightarrow>
          if is_404 err1 then
            (if snd (GetOk d ''state'') then
               (case Devices_Get client [] w1 of
                  (Inl err2, w2) \<Rightarrow>
                    ((None, [],
                      Some (ErrorString (''Error retrieving device: '' @ Error_text err2))),
                     d\<lparr>Id' := []\<rparr>,
                     \<lparr>world = w2, calls = calls r @ [CallGet (Id' d), CallGet []]\<rparr>)
                | (Inr dev2, w2) \<Rightarrow>
                    ((Some dev2, as_string (fst (GetOk d ''state'')), None),
                     d\<lparr>Id' := []\<rparr>,
                     \<lparr>world = w2, calls = calls r @ [CallGet (Id' d), CallGet []]\<rparr>))
             else ((None, [], None), d\<lparr>Id' := []\<rparr>,
                   \<lparr>world = w1, calls = calls r @ [CallGet (Id' d)]\<rparr>))
          else
            ((None, [], Some (ErrorString (''Error retrieving device: '' @ Error_text err1))), d,
             \<lparr>world = w1, calls = calls r @ [CallGet (Id' d)]\<rparr>))"
proof (cases first)
  case (Inl err1)
  then show ?thesis using refresh_get_failed [of client d r err1 w1] g by simp
next
  case (Inr dev1)
  show ?thesis
  proof (cases "State dev1 = []")
    case True
    then show ?thesis using refresh_no_state [of client d r dev1 w1] g Inr by simp
  next
    case False
    then show ?thesis using refresh_found [of client d r dev1 w1] g Inr by simp
  qed
qed

text \<open>
  Instances: the first fetch sees the device queued and the second sees it active; the
  second fetch fails; and the first fetch reports not-found while the local state is
  \<open>active\<close>.
\<close>

theorem C10_fetches_per_tick_witness:
  "newDeviceStateRefreshFunc
     (scripted_client (Inl not_found) [Inr (example_device ''queued'' [])]
        (Inr (example_device ''active'' [])) None None) ''state'' (tracked_data, fresh_remote) =
     ((Some (example_device ''active'' []), ''queued'', None),
      populate (example_device ''queued'' []) tracked_data,
      \<lparr>world = 2, calls = [CallGet ''d1'', CallGet ''d1'']\<rparr>) \<and>
   newDeviceStateRefreshFunc
     (scripted_client (Inl not_found) [Inr (example_device ''queued'' [])]
        (Inl server_error) None None) ''state'' (tracked_data, fresh_remote) =
     ((None, [], Some (ErrorString ''Error retrieving device: 500 Internal Server Error'')),
      populate (example_device ''queued'' []) tracked_data,
      \<lparr>world = 2, calls = [CallGet ''d1'', CallGet ''d1'']\<rparr>) \<and>
   newDeviceStateRefreshFunc
     (scripted_client (Inl not_found) [Inl not_found]
        (Inr (example_device ''queued'' [])) None None) ''state'' (active_data, fresh_remote) =
     ((Some (example_device ''queued'' []), ''active'', None),
      active_data\<lparr>Id' := []\<rparr>,
      \<lparr>world = 2, calls = [CallGet ''d1'', CallGet []]\<rparr>)"
proof -
  have a: "Devices_Get (scripted_client (Inl not_found) [Inr (example_device ''queued'' [])]
        (Inr (example_device ''active'' [])) None None)
             (Id' tracked_data) (world fresh_remote) = (Inr (example_device ''queued'' []), 1)"
    by (simp add: scripted_Get Id_examples)
  have b: "Devices_Get (scripted_client (Inl not_found) [Inr (example_device ''queued'' [])]
        (Inl server_error) None None)
             (Id' tracked_data) (world fresh_remote) = (Inr (example_device ''queued'' []), 1)"
    by (simp add: scripted_Get Id_examples)
  have c: "Devices_Get (scripted_client (Inl not_found) [Inl not_found]
        (Inr (example_device ''queued'' [])) None None)
             (Id' active_data) (world fresh_remote) = (Inl not_found, 1)"
    by (simp add: scripted_Get Id_examples)
  have s: "State (example_device ''queued'' []) = ''queued''"
    by (simp add: example_device_def)
  show ?thesis
    using C10_fetches_per_tick [OF a] C10_fetches_per_tick [OF b] C10_fetches_per_tick [OF c]
    by (simp add: s scripted_Get Id_examples error_texts is_404_not_found GetOk_active)
qed

text \<open>
  C10 as stated fails: on a resource with the local state \<open>active\<close> the attribute is
  determinable although the first \<open>Get\<close> reports not-found. The second \<open>Get\<close> is then made
  with the empty ID; when it returns a device, the value handed over with that snapshot is
  the stale \<open>active\<close>, and when it fails too the tick is an error although no fetch
  succeeded.
\<close>

theorem C10_stale_value_counterexample:
  "snd (GetOk active_data ''state'') \<and>
   Devices_Get (scripted_client (Inl not_found) [Inl not_found]
        (Inr (example_device ''queued'' [])) None None)
     (Id' active_data) (world fresh_remote) = (Inl not_found, 1) \<and>
   newDeviceStateRefreshFunc
     (scripted_client (Inl not_found) [Inl not_found]
        (Inr (example_device ''queued'' [])) None None) ''state'' (active_data, fresh_remote) =
     ((Some (example_device ''queued'' []), ''active'', None),
      active_data\<lparr>Id' := []\<rparr>,
      \<lparr>world = 2, calls = [CallGet ''d1'', CallGet []]\<rparr>) \<and>
   newDeviceStateRefreshFunc
     (scripted_client (Inl not_found) [] (Inl not_found) (Some not_found) None)
     ''state'' (active_data, fresh_remote) =
     ((None, [], Some (ErrorString ''Error retrieving device: 404 Not Found'')),
      active_data\<lparr>Id' := []\<rparr>,
      \<lparr>world = 2, calls = [CallGet ''d1'', CallGet []]\<rparr>)"
proof -
  have c: "Devices_Get (scripted_client (Inl not_found) [Inl not_found]
        (Inr (example_device ''queued'' [])) None None)
             (Id' active_data) (world fresh_remote) = (Inl not_found, 1)"
    by (simp add: scripted_Get Id_examples)
  have e: "Devices_Get (scripted_client (Inl not_found) [] (Inl not_found) (Some not_found) None)
             (Id' active_data) (world fresh_remote) = (Inl not_found, 1)"
    by (simp add: scripted_Get Id_examples)
  show ?thesis
    using c refresh_get_failed [OF c] refresh_get_failed [OF e]
    by (simp add: scripted_Get Id_examples error_texts is_404_not_found GetOk_active)
qed

end
